theory Spec2Isabelle
  imports Complex_Main
begin

section \<open>Embedding of pongGame.py\<close>

text \<open>
  Python floats are modelled as \<^typ>\<open>real\<close> (rounding, infinities and NaN are not
  modelled), Python ints as \<^typ>\<open>int\<close>. Mutation of \<open>self\<close> is explicit state passing.
  Every exception the source can raise is a value of \<open>error\<close>; a function that can raise
  returns \<open>error + 'a\<close>. Values drawn from \<open>random\<close> are inputs of the functions that
  draw them. The colours of \<open>Config\<close>, the HUD and \<open>draw\<close> only render and are left out.
\<close>

datatype error = ZeroDivisionError | ValueError

definition bind_err :: "error + 'a \<Rightarrow> ('a \<Rightarrow> error + 'b) \<Rightarrow> error + 'b" where
  "bind_err m f = (case m of Inl e \<Rightarrow> Inl e | Inr v \<Rightarrow> f v)"

subsection \<open>Config (lines 8-37) and GameState (lines 40-44)\<close>

record Config =
  width :: int
  height :: int
  fps :: int
  paddle_w :: int
  paddle_h :: int
  paddle_speed :: real
  ball_radius :: int
  ball_speed :: real
  ball_speed_max :: real
  score_to_win :: int
  powerup_radius :: int
  powerup_spawn_every_sec :: real
  boost_duration_sec :: real
  boost_multiplier :: real
  ai_reaction :: real
  ai_max_speed_factor :: real

text \<open>\<open>Config()\<close>: the dataclass defaults, the only configuration the game builds.\<close>

definition Config_defaults :: Config where
  "Config_defaults =
     \<lparr> width = 900, height = 540, fps = 60,
       paddle_w = 14, paddle_h = 110, paddle_speed = 420,
       ball_radius = 10, ball_speed = 360, ball_speed_max = 860,
       score_to_win = 7,
       powerup_radius = 12, powerup_spawn_every_sec = 7,
       boost_duration_sec = 1.2, boost_multiplier = 1.35,
       ai_reaction = 0.10, ai_max_speed_factor = 0.92 \<rparr>"

datatype GameState = MENU | PLAYING | PAUSED | GAMEOVER

subsection \<open>pygame.Rect and pygame.Vector2 (library behaviour the game relies on)\<close>

text \<open>
  \<open>pygame.Rect(left, top, w, h)\<close> holds integers; \<open>right = left + w\<close>,
  \<open>bottom = top + h\<close>. \<open>colliderect\<close> is pygame's overlap test: rectangles of zero
  width or height collide with nothing, and touching edges do not overlap.
\<close>

record Rect =
  left :: int
  top :: int
  w :: int
  h :: int

definition Rect_right :: "Rect \<Rightarrow> int" where
  "Rect_right rc = Rect.left rc + Rect.w rc"

definition Rect_bottom :: "Rect \<Rightarrow> int" where
  "Rect_bottom rc = Rect.top rc + Rect.h rc"

definition colliderect :: "Rect \<Rightarrow> Rect \<Rightarrow> bool" where
  "colliderect A B =
     (if Rect.w A = 0 \<or> Rect.h A = 0 \<or> Rect.w B = 0 \<or> Rect.h B = 0 then False
      else min (Rect.left A) (Rect_right A) < max (Rect.left B) (Rect_right B)
         \<and> min (Rect.top A) (Rect_bottom A) < max (Rect.top B) (Rect_bottom B)
         \<and> max (Rect.left A) (Rect_right A) > min (Rect.left B) (Rect_right B)
         \<and> max (Rect.top A) (Rect_bottom A) > min (Rect.top B) (Rect_bottom B))"

text \<open>Python's \<open>int(v)\<close> on a float truncates toward zero.\<close>

definition py_int :: "real \<Rightarrow> int" where
  "py_int v = (if 0 \<le> v then \<lfloor>v\<rfloor> else \<lceil>v\<rceil>)"

type_synonym Vector2 = "real \<times> real"

definition Vector2_length :: "Vector2 \<Rightarrow> real" where
  "Vector2_length v = sqrt (fst v * fst v + snd v * snd v)"

text \<open>\<open>Vector2.normalize()\<close> raises ValueError on a vector of length zero.\<close>

definition Vector2_normalize :: "Vector2 \<Rightarrow> error + Vector2" where
  "Vector2_normalize v =
     (if Vector2_length v = 0 then Inl ValueError
      else Inr (fst v / Vector2_length v, snd v / Vector2_length v))"

subsection \<open>Entities (lines 47-80)\<close>

record Paddle =
  x :: real
  y :: real
  w :: int
  h :: int
  speed :: real

definition Paddle_rect :: "Paddle \<Rightarrow> Rect" where
  "Paddle_rect p =
     \<lparr> Rect.left = py_int (Paddle.x p), Rect.top = py_int (Paddle.y p),
       Rect.w = Paddle.w p, Rect.h = Paddle.h p \<rparr>"

definition center_y :: "Paddle \<Rightarrow> real" where
  "center_y p = Paddle.y p + real_of_int (Paddle.h p) / 2"

record Ball =
  x :: real
  y :: real
  r :: int
  vx :: real
  vy :: real
  speed :: real

definition Ball_pos :: "Ball \<Rightarrow> Vector2" where
  "Ball_pos b = (Ball.x b, Ball.y b)"

record PowerUp =
  x :: real
  y :: real
  r :: int
  active :: bool

subsection \<open>Free functions (lines 113-179)\<close>

text \<open>\<^verbatim>\<open>def clamp(v, lo, hi): return max(lo, min(hi, v))\<close>\<close>

definition clamp :: "real \<Rightarrow> real \<Rightarrow> real \<Rightarrow> real" where
  "clamp v lo hi = max lo (min hi v)"

text \<open>
  \<open>random_ball_direction\<close> draws \<open>random.uniform(-0.35, 0.35)\<close> and
  \<open>random.choice([-1, 1])\<close>; the two drawn values are its arguments.
\<close>

definition random_ball_direction :: "real \<Rightarrow> int \<Rightarrow> int \<times> real" where
  "random_ball_direction drawn_angle drawn_choice =
     (let angle = drawn_angle; dir_x = drawn_choice in (dir_x, angle))"

definition reset_round :: "Config \<Rightarrow> Ball \<Rightarrow> bool \<Rightarrow> real \<times> int \<Rightarrow> error + Ball" where
  "reset_round cfg ball serve_to_left drawn =
     (let ball = ball\<lparr> Ball.x := real_of_int (width cfg) / 2,
                       Ball.y := real_of_int (height cfg) / 2,
                       Ball.speed := ball_speed cfg \<rparr>;
          (dir_x, angle) = random_ball_direction (fst drawn) (snd drawn);
          dir_x = (if serve_to_left then - 1 else 1);
          vx = real_of_int dir_x * cos angle;
          vy = sin angle;
          v = (vx, vy);
          v = (if Vector2_length v = 0 then (real_of_int dir_x, 0.1) else v)
      in bind_err (Vector2_normalize v)
           (\<lambda>v. Inr (ball\<lparr> Ball.vx := fst v, Ball.vy := snd v \<rparr>)))"

definition circle_rect_collision :: "real \<Rightarrow> real \<Rightarrow> real \<Rightarrow> Rect \<Rightarrow> bool" where
  "circle_rect_collision cx cy cr rect =
     (let nearest_x = clamp cx (real_of_int (Rect.left rect)) (real_of_int (Rect_right rect));
          nearest_y = clamp cy (real_of_int (Rect.top rect)) (real_of_int (Rect_bottom rect));
          dx = cx - nearest_x;
          dy = cy - nearest_y
      in dx * dx + dy * dy \<le> cr * cr)"

text \<open>
  \<open>apply_paddle_bounce\<close>: the division by \<open>paddle.h / 2\<close> raises ZeroDivisionError
  for a paddle of height 0.
\<close>

definition apply_paddle_bounce :: "Config \<Rightarrow> Ball \<Rightarrow> Paddle \<Rightarrow> bool \<Rightarrow> error + Ball" where
  "apply_paddle_bounce cfg ball paddle is_left =
     (let ball = ball\<lparr> Ball.vx := (if is_left then \<bar>Ball.vx ball\<bar> else - \<bar>Ball.vx ball\<bar>) \<rparr>
      in if real_of_int (Paddle.h paddle) / 2 = 0 then Inl ZeroDivisionError
         else
           let offset = (Ball.y ball - center_y paddle) / (real_of_int (Paddle.h paddle) / 2);
               offset = clamp offset (- 1) 1;
               ball = ball\<lparr> Ball.vy := offset * 0.95 \<rparr>;
               v = (Ball.vx ball, Ball.vy ball);
               v = (if Vector2_length v = 0 then ((if is_left then 1 else - 1), 0.1) else v)
           in bind_err (Vector2_normalize v)
                (\<lambda>v. Inr (ball\<lparr> Ball.vx := fst v, Ball.vy := snd v,
                                  Ball.speed := min (ball_speed_max cfg) (Ball.speed ball * 1.03) \<rparr>)))"

definition ai_move :: "Config \<Rightarrow> Paddle \<Rightarrow> Ball \<Rightarrow> real \<Rightarrow> Paddle" where
  "ai_move cfg ai ball dt =
     (let target = Ball.y ball;
          desired = center_y ai + (target - center_y ai) * (1 - ai_reaction cfg);
          ai = (if desired > center_y ai + 2
                then ai\<lparr> Paddle.y := Paddle.y ai + Paddle.speed ai * ai_max_speed_factor cfg * dt \<rparr>
                else if desired < center_y ai - 2
                then ai\<lparr> Paddle.y := Paddle.y ai - Paddle.speed ai * ai_max_speed_factor cfg * dt \<rparr>
                else ai)
      in ai\<lparr> Paddle.y := clamp (Paddle.y ai) 0 (real_of_int (height cfg - Paddle.h ai)) \<rparr>)"

subsection \<open>PongGame: state and construction (lines 182-231)\<close>

record PongGame =
  cfg :: Config
  state :: GameState
  left :: Paddle
  right :: Paddle
  ball :: Ball
  left_score :: int
  right_score :: int
  powerup :: "PowerUp option"
  powerup_timer :: real
  boost_timer :: real

text \<open>\<open>__init__\<close>; its argument is the pair drawn by the first \<open>reset_round\<close>.\<close>

definition PongGame_init :: "real \<times> int \<Rightarrow> error + PongGame" where
  "PongGame_init drawn =
     (let c = Config_defaults;
          g = \<lparr> cfg = c, state = MENU,
                left = \<lparr> Paddle.x = 28,
                         Paddle.y = real_of_int (height c) / 2 - real_of_int (paddle_h c) / 2,
                         Paddle.w = paddle_w c, Paddle.h = paddle_h c,
                         Paddle.speed = paddle_speed c \<rparr>,
                right = \<lparr> Paddle.x = real_of_int (width c - 28 - paddle_w c),
                          Paddle.y = real_of_int (height c) / 2 - real_of_int (paddle_h c) / 2,
                          Paddle.w = paddle_w c, Paddle.h = paddle_h c,
                          Paddle.speed = paddle_speed c \<rparr>,
                ball = \<lparr> Ball.x = real_of_int (width c) / 2,
                         Ball.y = real_of_int (height c) / 2,
                         Ball.r = ball_radius c, Ball.vx = 1, Ball.vy = 0,
                         Ball.speed = ball_speed c \<rparr>,
                left_score = 0, right_score = 0,
                powerup = None, powerup_timer = 0, boost_timer = 0 \<rparr>
      in bind_err (reset_round c (ball g) False drawn) (\<lambda>b. Inr (g\<lparr> ball := b \<rparr>)))"

text \<open>
  \<open>random.randint(a, b)\<close> raises ValueError on an empty range and otherwise returns
  some integer of \<open>[a, b]\<close>; the natural number is the generator's choice.
\<close>

definition randint :: "int \<Rightarrow> int \<Rightarrow> nat \<Rightarrow> error + int" where
  "randint a b choice =
     (if b < a then Inl ValueError else Inr (a + int (choice mod nat (b - a + 1))))"

definition spawn_powerup :: "PongGame \<Rightarrow> nat \<times> nat \<Rightarrow> error + PongGame" where
  "spawn_powerup g choices =
     (let margin = 120
      in bind_err (randint margin (width (cfg g) - margin) (fst choices)) (\<lambda>px.
         bind_err (randint 80 (height (cfg g) - 80) (snd choices)) (\<lambda>py.
         Inr (g\<lparr> powerup := Some \<lparr> PowerUp.x = real_of_int px, PowerUp.y = real_of_int py,
                                    PowerUp.r = powerup_radius (cfg g),
                                    PowerUp.active = True \<rparr> \<rparr>))))"

subsection \<open>handle_input (lines 233-252)\<close>

record Pressed =
  K_w :: bool
  K_s :: bool
  K_RSHIFT :: bool
  K_LSHIFT :: bool
  K_UP :: bool
  K_DOWN :: bool

definition handle_input :: "PongGame \<Rightarrow> Pressed \<Rightarrow> real \<Rightarrow> PongGame" where
  "handle_input g keys dt =
     (let l = left g;
          l = (if K_w keys then l\<lparr> Paddle.y := Paddle.y l - Paddle.speed l * dt \<rparr> else l);
          l = (if K_s keys then l\<lparr> Paddle.y := Paddle.y l + Paddle.speed l * dt \<rparr> else l);
          l = l\<lparr> Paddle.y := clamp (Paddle.y l) 0 (real_of_int (height (cfg g) - Paddle.h l)) \<rparr>;
          g = g\<lparr> left := l \<rparr>;
          manual_right = (K_RSHIFT keys \<or> K_LSHIFT keys)
      in if manual_right then
           (let p = right g;
                p = (if K_UP keys then p\<lparr> Paddle.y := Paddle.y p - Paddle.speed p * dt \<rparr> else p);
                p = (if K_DOWN keys then p\<lparr> Paddle.y := Paddle.y p + Paddle.speed p * dt \<rparr> else p);
                p = p\<lparr> Paddle.y := clamp (Paddle.y p) 0 (real_of_int (height (cfg g) - Paddle.h p)) \<rparr>
            in g\<lparr> right := p \<rparr>)
         else g\<lparr> right := ai_move (cfg g) (right g) (ball g) dt \<rparr>)"

subsection \<open>update_playing (lines 254-311), one definition per commented block\<close>

text \<open>Lines 255-259: the power-up timer.\<close>

definition update_powerup_timer :: "PongGame \<Rightarrow> real \<Rightarrow> nat \<times> nat \<Rightarrow> error + PongGame" where
  "update_powerup_timer g dt choices =
     (let g = g\<lparr> powerup_timer := powerup_timer g + dt \<rparr>
      in if powerup g = None \<and> powerup_timer g \<ge> powerup_spawn_every_sec (cfg g)
         then spawn_powerup (g\<lparr> powerup_timer := 0 \<rparr>) choices
         else Inr g)"

text \<open>Lines 261-265: the boost timer.\<close>

definition update_boost_timer :: "PongGame \<Rightarrow> real \<Rightarrow> PongGame" where
  "update_boost_timer g dt =
     (if boost_timer g > 0 then
        (let g = g\<lparr> boost_timer := boost_timer g - dt \<rparr>
         in if boost_timer g \<le> 0 then g\<lparr> boost_timer := 0 \<rparr> else g)
      else g)"

text \<open>Lines 267-270: the motion of the ball.\<close>

definition update_ball_motion :: "PongGame \<Rightarrow> real \<Rightarrow> PongGame" where
  "update_ball_motion g dt =
     (let s = Ball.speed (ball g) * (if boost_timer g > 0 then boost_multiplier (cfg g) else 1);
          b = ball g;
          b = b\<lparr> Ball.x := Ball.x b + Ball.vx b * s * dt \<rparr>;
          b = b\<lparr> Ball.y := Ball.y b + Ball.vy b * s * dt \<rparr>
      in g\<lparr> ball := b \<rparr>)"

text \<open>Lines 272-278: top and bottom walls.\<close>

definition update_wall_collision :: "PongGame \<Rightarrow> PongGame" where
  "update_wall_collision g =
     (let b = ball g;
          b = (if Ball.y b - real_of_int (Ball.r b) \<le> 0
               then b\<lparr> Ball.y := real_of_int (Ball.r b), Ball.vy := - Ball.vy b \<rparr> else b);
          b = (if Ball.y b + real_of_int (Ball.r b) \<ge> real_of_int (height (cfg g))
               then b\<lparr> Ball.y := real_of_int (height (cfg g) - Ball.r b), Ball.vy := - Ball.vy b \<rparr>
               else b)
      in g\<lparr> ball := b \<rparr>)"

text \<open>
  Lines 280-289: paddles. \<open>b_rect\<close> is built once, from the ball before either bounce;
  the test against the right paddle reads \<open>ball.vx\<close> as the left bounce left it.
\<close>

definition Ball_rect :: "Ball \<Rightarrow> Rect" where
  "Ball_rect b =
     \<lparr> Rect.left = py_int (Ball.x b - real_of_int (Ball.r b)),
       Rect.top = py_int (Ball.y b - real_of_int (Ball.r b)),
       Rect.w = Ball.r b * 2, Rect.h = Ball.r b * 2 \<rparr>"

definition update_paddle_collision :: "PongGame \<Rightarrow> error + PongGame" where
  "update_paddle_collision g =
     (let b_rect = Ball_rect (ball g)
      in bind_err
           (if colliderect b_rect (Paddle_rect (left g)) \<and> Ball.vx (ball g) < 0 then
              bind_err
                (apply_paddle_bounce (cfg g)
                   ((ball g)\<lparr> Ball.x := Paddle.x (left g) + real_of_int (Paddle.w (left g))
                                          + real_of_int (Ball.r (ball g)) \<rparr>)
                   (left g) True)
                (\<lambda>b. Inr (g\<lparr> ball := b \<rparr>))
            else Inr g)
           (\<lambda>g. if colliderect b_rect (Paddle_rect (right g)) \<and> Ball.vx (ball g) > 0 then
                  bind_err
                    (apply_paddle_bounce (cfg g)
                       ((ball g)\<lparr> Ball.x := Paddle.x (right g) - real_of_int (Ball.r (ball g)) \<rparr>)
                       (right g) False)
                    (\<lambda>b. Inr (g\<lparr> ball := b \<rparr>))
                else Inr g))"

text \<open>Lines 291-296: contact with the power-up.\<close>

definition update_powerup_contact :: "PongGame \<Rightarrow> PongGame" where
  "update_powerup_contact g =
     (case powerup g of
        None \<Rightarrow> g
      | Some p \<Rightarrow>
          if PowerUp.active p then
            (if Vector2_length (fst (Ball_pos (ball g)) - PowerUp.x p,
                                snd (Ball_pos (ball g)) - PowerUp.y p)
                  \<le> real_of_int (Ball.r (ball g) + PowerUp.r p)
             then g\<lparr> powerup := None, boost_timer := boost_duration_sec (cfg g) \<rparr>
             else g)
          else g)"

text \<open>Lines 298-307: goals. Each \<open>reset_round\<close> has its own drawn pair.\<close>

definition update_goal :: "PongGame \<Rightarrow> real \<times> int \<Rightarrow> real \<times> int \<Rightarrow> error + PongGame" where
  "update_goal g drawn_l drawn_r =
     bind_err
       (if Ball.x (ball g) + real_of_int (Ball.r (ball g)) < 0 then
          bind_err (reset_round (cfg g) (ball g) True drawn_l)
            (\<lambda>b. Inr (g\<lparr> right_score := right_score g + 1, ball := b, boost_timer := 0 \<rparr>))
        else Inr g)
       (\<lambda>g. if Ball.x (ball g) - real_of_int (Ball.r (ball g)) > real_of_int (width (cfg g)) then
              bind_err (reset_round (cfg g) (ball g) False drawn_r)
                (\<lambda>b. Inr (g\<lparr> left_score := left_score g + 1, ball := b, boost_timer := 0 \<rparr>))
            else Inr g)"

text \<open>Lines 309-311: the win.\<close>

definition update_win :: "PongGame \<Rightarrow> PongGame" where
  "update_win g =
     (if left_score g \<ge> score_to_win (cfg g) \<or> right_score g \<ge> score_to_win (cfg g)
      then g\<lparr> state := GAMEOVER \<rparr> else g)"

record Rnd =
  spawn_choices :: "nat \<times> nat"
  serve_after_left_goal :: "real \<times> int"
  serve_after_right_goal :: "real \<times> int"

definition update_playing :: "PongGame \<Rightarrow> real \<Rightarrow> Rnd \<Rightarrow> error + PongGame" where
  "update_playing g dt rnd =
     bind_err (update_powerup_timer g dt (spawn_choices rnd)) (\<lambda>g.
     bind_err (update_paddle_collision
                 (update_wall_collision (update_ball_motion (update_boost_timer g dt) dt))) (\<lambda>g.
     bind_err (update_goal (update_powerup_contact g)
                 (serve_after_left_goal rnd) (serve_after_right_goal rnd)) (\<lambda>g.
     Inr (update_win g))))"

subsection \<open>restart and run (lines 355-400)\<close>

definition restart :: "PongGame \<Rightarrow> real \<times> int \<Rightarrow> error + PongGame" where
  "restart g drawn =
     (let g = g\<lparr> left_score := 0, right_score := 0,
                 left := (left g)\<lparr> Paddle.y := real_of_int (height (cfg g)) / 2
                                                - real_of_int (Paddle.h (left g)) / 2 \<rparr>,
                 right := (right g)\<lparr> Paddle.y := real_of_int (height (cfg g)) / 2
                                                  - real_of_int (Paddle.h (right g)) / 2 \<rparr>,
                 powerup := None, powerup_timer := 0, boost_timer := 0 \<rparr>
      in bind_err (reset_round (cfg g) (ball g) False drawn)
           (\<lambda>b. Inr (g\<lparr> ball := b, state := PLAYING \<rparr>)))"

datatype Key = K_ESCAPE | K_RETURN | K_p | K_r | K_other

datatype Event = QUIT | KEYDOWN Key | OTHER_EVENT

text \<open>
  What one pass of the \<open>while True\<close> body leaves: the loop returned (quit), an exception
  left it, or it goes on with a state.
\<close>

datatype Outcome = Returned | Raised error | Running PongGame

text \<open>
  Lines 370-394, the loop over the frame's events. GAMEOVER is only entered by
  \<open>update_playing\<close>, so at most one \<open>restart\<close> runs in a frame and one drawn pair serves it.
\<close>

fun handle_events :: "PongGame \<Rightarrow> Event list \<Rightarrow> real \<times> int \<Rightarrow> Outcome" where
  "handle_events g [] drawn = Running g"
| "handle_events g (QUIT # es) drawn = Returned"
| "handle_events g (OTHER_EVENT # es) drawn = handle_events g es drawn"
| "handle_events g (KEYDOWN k # es) drawn =
     (if k = K_ESCAPE then Returned
      else case state g of
          MENU \<Rightarrow> handle_events (if k = K_RETURN then g\<lparr> state := PLAYING \<rparr> else g) es drawn
        | PLAYING \<Rightarrow> handle_events (if k = K_p then g\<lparr> state := PAUSED \<rparr> else g) es drawn
        | PAUSED \<Rightarrow> handle_events (if k = K_p then g\<lparr> state := PLAYING \<rparr> else g) es drawn
        | GAMEOVER \<Rightarrow>
            (if k = K_r then
               (case restart g drawn of
                  Inl e \<Rightarrow> Raised e
                | Inr g' \<Rightarrow> handle_events g' es drawn)
             else handle_events g es drawn))"

text \<open>
  One frame: \<open>dt = clock.tick(fps) / 1000\<close>, the events, the held keys and the values
  the frame may draw.
\<close>

record Frame =
  frame_dt :: real
  frame_events :: "Event list"
  frame_keys :: Pressed
  frame_restart_draw :: "real \<times> int"
  frame_rnd :: Rnd

text \<open>Lines 397-398: what a frame does while PLAYING.\<close>

definition play_frame :: "PongGame \<Rightarrow> Frame \<Rightarrow> error + PongGame" where
  "play_frame g f =
     update_playing (handle_input g (frame_keys f) (frame_dt f)) (frame_dt f) (frame_rnd f)"

definition run_frame :: "PongGame \<Rightarrow> Frame \<Rightarrow> Outcome" where
  "run_frame g f =
     (case handle_events g (frame_events f) (frame_restart_draw f) of
        Returned \<Rightarrow> Returned
      | Raised e \<Rightarrow> Raised e
      | Running g \<Rightarrow>
          if state g = PLAYING then
            (case play_frame g f of
               Inl e \<Rightarrow> Raised e
             | Inr g' \<Rightarrow> Running g')
          else Running g)"

text \<open>
  \<open>run\<close>: the loop has no exit of its own; it consumes one frame of input per pass, so its
  state after a finite prefix of frames is a recursion over that prefix.
\<close>

fun run :: "PongGame \<Rightarrow> Frame list \<Rightarrow> Outcome" where
  "run g [] = Running g"
| "run g (f # fs) =
     (case run_frame g f of
        Running g' \<Rightarrow> run g' fs
      | Returned \<Rightarrow> Returned
      | Raised e \<Rightarrow> Raised e)"

subsection \<open>Prefixes of update_playing and observations on it\<close>

text \<open>
  The step up to line 278 (timers, motion, walls) and up to line 289 (paddles): the states
  on which the paddle tests and the power-up test of the step are evaluated.
\<close>

definition step_to_walls :: "PongGame \<Rightarrow> real \<Rightarrow> nat \<times> nat \<Rightarrow> error + PongGame" where
  "step_to_walls g dt choices =
     bind_err (update_powerup_timer g dt choices) (\<lambda>g.
     Inr (update_wall_collision (update_ball_motion (update_boost_timer g dt) dt)))"

definition step_to_paddles :: "PongGame \<Rightarrow> real \<Rightarrow> nat \<times> nat \<Rightarrow> error + PongGame" where
  "step_to_paddles g dt choices =
     bind_err (step_to_walls g dt choices) update_paddle_collision"

text \<open>
  The tests of lines 283 and 287 on the ball as line 281 finds it, and \<open>offset * 0.95\<close> of
  lines 155-157.
\<close>

definition hits_left :: "PongGame \<Rightarrow> bool" where
  "hits_left g \<longleftrightarrow>
     colliderect (Ball_rect (ball g)) (Paddle_rect (left g)) \<and> Ball.vx (ball g) < 0"

definition hits_right :: "PongGame \<Rightarrow> bool" where
  "hits_right g \<longleftrightarrow>
     colliderect (Ball_rect (ball g)) (Paddle_rect (right g)) \<and> Ball.vx (ball g) > 0"

definition bounce_offset :: "Ball \<Rightarrow> Paddle \<Rightarrow> real" where
  "bounce_offset b p =
     clamp ((Ball.y b - center_y p) / (real_of_int (Paddle.h p) / 2)) (- 1) 1 * 0.95"

text \<open>
  A rally: consecutive PLAYING frames. \<open>paddle_contacts\<close> counts the paddle tests that
  succeed in a frame, \<open>rally_contacts\<close> sums them over the frames, \<open>no_goal\<close> says that no
  frame changes a score.
\<close>

definition paddle_contacts :: "PongGame \<Rightarrow> Frame \<Rightarrow> nat" where
  "paddle_contacts g f =
     (case step_to_walls (handle_input g (frame_keys f) (frame_dt f)) (frame_dt f)
             (spawn_choices (frame_rnd f)) of
        Inl e \<Rightarrow> 0
      | Inr g' \<Rightarrow> (if hits_left g' then 1 else 0) + (if hits_right g' then 1 else 0))"

fun rally :: "PongGame \<Rightarrow> Frame list \<Rightarrow> error + PongGame" where
  "rally g [] = Inr g"
| "rally g (f # fs) = bind_err (play_frame g f) (\<lambda>g'. rally g' fs)"

fun rally_contacts :: "PongGame \<Rightarrow> Frame list \<Rightarrow> nat" where
  "rally_contacts g [] = 0"
| "rally_contacts g (f # fs) =
     (case play_frame g f of
        Inl e \<Rightarrow> 0
      | Inr g' \<Rightarrow> paddle_contacts g f + rally_contacts g' fs)"

fun no_goal :: "PongGame \<Rightarrow> Frame list \<Rightarrow> bool" where
  "no_goal g [] = True"
| "no_goal g (f # fs) =
     (case play_frame g f of
        Inl e \<Rightarrow> False
      | Inr g' \<Rightarrow> left_score g' = left_score g \<and> right_score g' = right_score g
                  \<and> no_goal g' fs)"

text \<open>
  The power-up timer as a clock: \<open>spawns_in\<close> is the test of line 257 as the frame
  evaluates it (after line 256 added \<open>dt\<close>), and \<open>seconds_since_spawn t\<close> is the time on a
  clock that shows \<open>t\<close> before the frames, advances by each frame's \<open>dt\<close> and is set to 0
  by a frame that spawns.
\<close>

definition spawns_in :: "PongGame \<Rightarrow> Frame \<Rightarrow> bool" where
  "spawns_in g f \<longleftrightarrow>
     powerup g = None \<and> powerup_spawn_every_sec (cfg g) \<le> powerup_timer g + frame_dt f"

fun seconds_since_spawn :: "real \<Rightarrow> PongGame \<Rightarrow> Frame list \<Rightarrow> real" where
  "seconds_since_spawn t g [] = t"
| "seconds_since_spawn t g (f # fs) =
     (case play_frame g f of
        Inl e \<Rightarrow> t
      | Inr g' \<Rightarrow> seconds_since_spawn (if spawns_in g f then 0 else t + frame_dt f) g' fs)"

subsection \<open>States the game can be in\<close>

text \<open>
  What \<open>__init__\<close> fixes and nothing later changes: the configuration is \<open>Config()\<close>,
  the paddles keep their column and size, the ball its radius; a power-up on the field
  was placed by \<open>spawn_powerup\<close>; the ball's speed lies between the base speed and the cap.
\<close>

definition wf_game :: "PongGame \<Rightarrow> bool" where
  "wf_game g \<longleftrightarrow>
     cfg g = Config_defaults
     \<and> Paddle.x (left g) = 28 \<and> Paddle.w (left g) = 14 \<and> Paddle.h (left g) = 110
     \<and> Paddle.x (right g) = 858 \<and> Paddle.w (right g) = 14 \<and> Paddle.h (right g) = 110
     \<and> Ball.r (ball g) = 10
     \<and> 360 \<le> Ball.speed (ball g) \<and> Ball.speed (ball g) \<le> 860
     \<and> (case powerup g of
          None \<Rightarrow> True
        | Some p \<Rightarrow> 120 \<le> PowerUp.x p \<and> PowerUp.x p \<le> 780
                   \<and> 80 \<le> PowerUp.y p \<and> PowerUp.y p \<le> 460
                   \<and> PowerUp.r p = 12 \<and> PowerUp.active p)"

text \<open>
  The state right after ENTER in the menu, when the first serve drew the angle 0:
  \<open>PongGame_init (0, 1)\<close> with \<open>state\<close> set to PLAYING.
\<close>

definition kickoff :: PongGame where
  "kickoff =
     \<lparr> cfg = Config_defaults, state = PLAYING,
       left = \<lparr> Paddle.x = 28, Paddle.y = 215, Paddle.w = 14, Paddle.h = 110,
                Paddle.speed = 420 \<rparr>,
       right = \<lparr> Paddle.x = 858, Paddle.y = 215, Paddle.w = 14, Paddle.h = 110,
                 Paddle.speed = 420 \<rparr>,
       ball = \<lparr> Ball.x = 450, Ball.y = 270, Ball.r = 10, Ball.vx = 1, Ball.vy = 0,
                Ball.speed = 360 \<rparr>,
       left_score = 0, right_score = 0,
       powerup = None, powerup_timer = 0, boost_timer = 0 \<rparr>"

section \<open>Basic facts\<close>

lemma bind_err_Inr [simp]: "bind_err (Inr v) f = f v"
  by (simp add: bind_err_def)

lemma bind_err_Inl [simp]: "bind_err (Inl e) f = Inl e"
  by (simp add: bind_err_def)

lemma bind_err_eq_Inr: "bind_err m f = Inr b \<longleftrightarrow> (\<exists>a. m = Inr a \<and> f a = Inr b)"
  by (cases m) simp_all

lemma Vector2_length_cos_sin [simp]:
  "Vector2_length (cos t, sin t) = 1" "Vector2_length (- cos t, sin t) = 1"
proof -
  have "cos t * cos t + sin t * sin t = 1"
    using sin_cos_squared_add2 [of t] by (simp add: power2_eq_square)
  then show "Vector2_length (cos t, sin t) = 1" "Vector2_length (- cos t, sin t) = 1"
    by (simp_all add: Vector2_length_def)
qed

text \<open>\<open>reset_round\<close> never raises: the vector it normalizes has length 1.\<close>

lemma reset_round_Inr:
  "reset_round c b s d =
     Inr (b\<lparr> Ball.x := real_of_int (width c) / 2, Ball.y := real_of_int (height c) / 2,
             Ball.speed := ball_speed c,
             Ball.vx := (if s then - 1 else 1) * cos (fst d), Ball.vy := sin (fst d) \<rparr>)"
  by (cases s)
     (simp_all add: reset_round_def random_ball_direction_def Vector2_normalize_def Let_def)

lemma cos_serve_angle_pos: "0 < cos t" if "- 0.35 \<le> t" "t \<le> 0.35" for t :: real
proof -
  have "2 \<le> pi" by (rule pi_ge_two)
  then have "- (pi / 2) < t" "t < pi / 2" using that by simp_all
  then show ?thesis by (rule cos_gt_zero_pi)
qed

lemma kickoff_init: "PongGame_init (0, 1) = Inr (kickoff\<lparr> state := MENU \<rparr>)"
  by (simp add: PongGame_init_def reset_round_Inr kickoff_def Config_defaults_def Let_def)

lemma wf_kickoff: "wf_game kickoff"
  by (simp add: wf_game_def kickoff_def)

section \<open>The serve\<close>

text \<open>
  C3. For every call of \<open>reset_round\<close> with a drawn angle in \<open>[-0.35, 0.35]\<close>: the call
  returns, the ball is at the centre of the arena, its speed is the configured base speed,
  its direction is a unit vector, the sign of the horizontal component is \<open>-1\<close> when
  serving to the left and \<open>+1\<close> otherwise, and the vertical component is the sine of the
  drawn angle whatever the side (the value drawn by \<open>random.choice\<close> is discarded).
\<close>

theorem reset_round_serve:
  assumes "- 0.35 \<le> angle" and "angle \<le> 0.35"
  shows "\<exists>b'. reset_round c b serve_to_left (angle, choice) = Inr b'
           \<and> Ball.x b' = real_of_int (width c) / 2
           \<and> Ball.y b' = real_of_int (height c) / 2
           \<and> Ball.speed b' = ball_speed c
           \<and> (Ball.vx b')\<^sup>2 + (Ball.vy b')\<^sup>2 = 1
           \<and> sgn (Ball.vx b') = (if serve_to_left then - 1 else 1)
           \<and> Ball.vy b' = sin angle
           \<and> Ball.r b' = Ball.r b"
proof -
  have c: "0 < cos angle" using assms by (rule cos_serve_angle_pos)
  have u: "(cos angle)\<^sup>2 + (sin angle)\<^sup>2 = 1" by simp
  show ?thesis
    using c u by (simp add: reset_round_Inr)
qed

theorem reset_round_serve_witness:
  "(- 0.35 \<le> (0::real) \<and> (0::real) \<le> 0.35)
   \<and> (\<exists>b'. reset_round Config_defaults (ball kickoff) True (0, 1) = Inr b'
           \<and> Ball.x b' = 450 \<and> Ball.y b' = 270 \<and> Ball.speed b' = 360
           \<and> (Ball.vx b')\<^sup>2 + (Ball.vy b')\<^sup>2 = 1
           \<and> sgn (Ball.vx b') = - 1 \<and> Ball.vy b' = 0 \<and> Ball.r b' = 10)"
  using reset_round_serve [of 0 Config_defaults "ball kickoff" True 1]
  by (simp add: Config_defaults_def kickoff_def)

section \<open>Paddles stay in the arena\<close>

text \<open>
  C9. After \<open>handle_input\<close>, for any held keys and any \<open>dt\<close>, the left paddle and the right
  paddle (driven by the arrow keys or by \<open>ai_move\<close>) satisfy
  \<open>0 \<le> y \<le> height - h\<close>, and so does the paddle \<open>ai_move\<close> returns. The paddles are not
  taller than the arena (110 against 540 in \<open>Config\<close>).
\<close>

theorem paddles_clamped:
  assumes "Paddle.h (left g) \<le> height (cfg g)" and "Paddle.h (right g) \<le> height (cfg g)"
  shows "0 \<le> Paddle.y (left (handle_input g keys dt))
       \<and> Paddle.y (left (handle_input g keys dt))
           \<le> real_of_int (height (cfg g) - Paddle.h (left (handle_input g keys dt)))
       \<and> 0 \<le> Paddle.y (right (handle_input g keys dt))
       \<and> Paddle.y (right (handle_input g keys dt))
           \<le> real_of_int (height (cfg g) - Paddle.h (right (handle_input g keys dt)))
       \<and> 0 \<le> Paddle.y (ai_move (cfg g) (right g) (ball g) dt)
       \<and> Paddle.y (ai_move (cfg g) (right g) (ball g) dt)
           \<le> real_of_int (height (cfg g) - Paddle.h (ai_move (cfg g) (right g) (ball g) dt))"
  using assms by (simp add: handle_input_def ai_move_def Let_def clamp_def)

theorem paddles_clamped_witness:
  "Paddle.h (left kickoff) \<le> height (cfg kickoff)
   \<and> Paddle.h (right kickoff) \<le> height (cfg kickoff)
   \<and> 0 \<le> Paddle.y (left (handle_input kickoff
            \<lparr> K_w = True, K_s = False, K_RSHIFT = False, K_LSHIFT = False,
              K_UP = False, K_DOWN = False \<rparr> 1))
   \<and> Paddle.y (left (handle_input kickoff
            \<lparr> K_w = True, K_s = False, K_RSHIFT = False, K_LSHIFT = False,
              K_UP = False, K_DOWN = False \<rparr> 1)) \<le> 430"
  using paddles_clamped [of kickoff
            "\<lparr> K_w = True, K_s = False, K_RSHIFT = False, K_LSHIFT = False,
              K_UP = False, K_DOWN = False \<rparr>" 1]
  by (simp add: kickoff_def Config_defaults_def handle_input_def Let_def)

section \<open>Vectors, bounces and the blocks of update_playing\<close>

lemma Vector2_length_nonneg: "0 \<le> Vector2_length v"
  by (simp add: Vector2_length_def)

lemma Vector2_length_eq_0_iff: "Vector2_length v = 0 \<longleftrightarrow> fst v = 0 \<and> snd v = 0"
proof -
  have "fst v * fst v + snd v * snd v = 0 \<longleftrightarrow> fst v = 0 \<and> snd v = 0"
    using sum_squares_eq_zero_iff [of "fst v" "snd v"] by simp
  then show ?thesis by (simp add: Vector2_length_def)
qed

lemma Vector2_length_sq: "Vector2_length v * Vector2_length v = fst v * fst v + snd v * snd v"
  by (simp add: Vector2_length_def)

lemma Vector2_normalize_unit:
  assumes "Vector2_length v \<noteq> 0"
  shows "(fst v / Vector2_length v)\<^sup>2 + (snd v / Vector2_length v)\<^sup>2 = 1"
proof -
  let ?L = "Vector2_length v"
  have "(fst v / ?L)\<^sup>2 + (snd v / ?L)\<^sup>2 = (fst v * fst v + snd v * snd v) / (?L * ?L)"
    by (simp add: power2_eq_square add_divide_distrib)
  also have "\<dots> = 1" using assms by (simp add: Vector2_length_sq [symmetric])
  finally show ?thesis .
qed

text \<open>What a bounce computes: the direction before normalization.\<close>

lemma apply_paddle_bounce_Inr:
  assumes "Paddle.h p \<noteq> 0"
  shows "\<exists>b'. apply_paddle_bounce c b p s = Inr b'
           \<and> Ball.speed b' = min (ball_speed_max c) (Ball.speed b * 1.03)
           \<and> Ball.x b' = Ball.x b \<and> Ball.y b' = Ball.y b \<and> Ball.r b' = Ball.r b
           \<and> (Ball.vx b')\<^sup>2 + (Ball.vy b')\<^sup>2 = 1"
proof -
  define v0 :: Vector2 where
    "v0 = ((if s then \<bar>Ball.vx b\<bar> else - \<bar>Ball.vx b\<bar>),
           clamp ((Ball.y b - center_y p) / (real_of_int (Paddle.h p) / 2)) (- 1) 1 * 0.95)"
  define v :: Vector2 where
    "v = (if Vector2_length v0 = 0 then ((if s then 1 else - 1), 0.1) else v0)"
  have nz: "Vector2_length v \<noteq> 0"
    by (auto simp: v_def Vector2_length_eq_0_iff)
  have eq: "apply_paddle_bounce c b p s =
      Inr (b\<lparr> Ball.vx := fst v / Vector2_length v, Ball.vy := snd v / Vector2_length v,
              Ball.speed := min (ball_speed_max c) (Ball.speed b * 1.03) \<rparr>)"
    using assms unfolding v_def v0_def
    by (simp add: apply_paddle_bounce_def Let_def Vector2_normalize_def Vector2_length_eq_0_iff)
  show ?thesis
    unfolding eq using Vector2_normalize_unit [OF nz] by simp
qed


lemma apply_paddle_bounce_moving:
  assumes "Paddle.h p \<noteq> 0" and "Ball.vx b \<noteq> 0"
  shows "apply_paddle_bounce c b p s =
     Inr (b\<lparr> Ball.vx := (if s then \<bar>Ball.vx b\<bar> else - \<bar>Ball.vx b\<bar>)
                 / Vector2_length ((if s then \<bar>Ball.vx b\<bar> else - \<bar>Ball.vx b\<bar>),
                     clamp ((Ball.y b - center_y p) / (real_of_int (Paddle.h p) / 2)) (- 1) 1 * 0.95),
             Ball.vy := clamp ((Ball.y b - center_y p) / (real_of_int (Paddle.h p) / 2)) (- 1) 1 * 0.95
                 / Vector2_length ((if s then \<bar>Ball.vx b\<bar> else - \<bar>Ball.vx b\<bar>),
                     clamp ((Ball.y b - center_y p) / (real_of_int (Paddle.h p) / 2)) (- 1) 1 * 0.95),
             Ball.speed := min (ball_speed_max c) (Ball.speed b * 1.03) \<rparr>)"
  using assms
  by (simp add: apply_paddle_bounce_def Let_def Vector2_normalize_def Vector2_length_eq_0_iff)

lemma update_boost_timer_frame [simp]:
  "cfg (update_boost_timer g dt) = cfg g"
  "state (update_boost_timer g dt) = state g"
  "left (update_boost_timer g dt) = left g"
  "right (update_boost_timer g dt) = right g"
  "ball (update_boost_timer g dt) = ball g"
  "left_score (update_boost_timer g dt) = left_score g"
  "right_score (update_boost_timer g dt) = right_score g"
  "powerup (update_boost_timer g dt) = powerup g"
  "powerup_timer (update_boost_timer g dt) = powerup_timer g"
  by (simp_all add: update_boost_timer_def Let_def)

lemma update_ball_motion_frame [simp]:
  "cfg (update_ball_motion g dt) = cfg g"
  "state (update_ball_motion g dt) = state g"
  "left (update_ball_motion g dt) = left g"
  "right (update_ball_motion g dt) = right g"
  "left_score (update_ball_motion g dt) = left_score g"
  "right_score (update_ball_motion g dt) = right_score g"
  "powerup (update_ball_motion g dt) = powerup g"
  "powerup_timer (update_ball_motion g dt) = powerup_timer g"
  "boost_timer (update_ball_motion g dt) = boost_timer g"
  "Ball.r (ball (update_ball_motion g dt)) = Ball.r (ball g)"
  "Ball.vx (ball (update_ball_motion g dt)) = Ball.vx (ball g)"
  "Ball.vy (ball (update_ball_motion g dt)) = Ball.vy (ball g)"
  "Ball.speed (ball (update_ball_motion g dt)) = Ball.speed (ball g)"
  by (simp_all add: update_ball_motion_def Let_def)

lemma update_wall_collision_frame [simp]:
  "cfg (update_wall_collision g) = cfg g"
  "state (update_wall_collision g) = state g"
  "left (update_wall_collision g) = left g"
  "right (update_wall_collision g) = right g"
  "left_score (update_wall_collision g) = left_score g"
  "right_score (update_wall_collision g) = right_score g"
  "powerup (update_wall_collision g) = powerup g"
  "powerup_timer (update_wall_collision g) = powerup_timer g"
  "boost_timer (update_wall_collision g) = boost_timer g"
  "Ball.x (ball (update_wall_collision g)) = Ball.x (ball g)"
  "Ball.r (ball (update_wall_collision g)) = Ball.r (ball g)"
  "Ball.vx (ball (update_wall_collision g)) = Ball.vx (ball g)"
  "Ball.speed (ball (update_wall_collision g)) = Ball.speed (ball g)"
  by (simp_all add: update_wall_collision_def Let_def)

lemma update_powerup_contact_frame [simp]:
  "cfg (update_powerup_contact g) = cfg g"
  "state (update_powerup_contact g) = state g"
  "left (update_powerup_contact g) = left g"
  "right (update_powerup_contact g) = right g"
  "ball (update_powerup_contact g) = ball g"
  "left_score (update_powerup_contact g) = left_score g"
  "right_score (update_powerup_contact g) = right_score g"
  "powerup_timer (update_powerup_contact g) = powerup_timer g"
  by (simp_all add: update_powerup_contact_def split: option.split)

lemma update_win_frame [simp]:
  "cfg (update_win g) = cfg g"
  "left (update_win g) = left g"
  "right (update_win g) = right g"
  "ball (update_win g) = ball g"
  "left_score (update_win g) = left_score g"
  "right_score (update_win g) = right_score g"
  "powerup (update_win g) = powerup g"
  "powerup_timer (update_win g) = powerup_timer g"
  "boost_timer (update_win g) = boost_timer g"
  by (simp_all add: update_win_def)

lemma handle_input_frame [simp]:
  "cfg (handle_input g keys dt) = cfg g"
  "state (handle_input g keys dt) = state g"
  "ball (handle_input g keys dt) = ball g"
  "left_score (handle_input g keys dt) = left_score g"
  "right_score (handle_input g keys dt) = right_score g"
  "powerup (handle_input g keys dt) = powerup g"
  "powerup_timer (handle_input g keys dt) = powerup_timer g"
  "boost_timer (handle_input g keys dt) = boost_timer g"
  "Paddle.x (left (handle_input g keys dt)) = Paddle.x (left g)"
  "Paddle.w (left (handle_input g keys dt)) = Paddle.w (left g)"
  "Paddle.h (left (handle_input g keys dt)) = Paddle.h (left g)"
  "Paddle.x (right (handle_input g keys dt)) = Paddle.x (right g)"
  "Paddle.w (right (handle_input g keys dt)) = Paddle.w (right g)"
  "Paddle.h (right (handle_input g keys dt)) = Paddle.h (right g)"
  by (simp_all add: handle_input_def ai_move_def Let_def)

lemma update_powerup_timer_defaults:
  assumes "cfg g = Config_defaults"
  shows "update_powerup_timer g dt ch =
     Inr (if powerup g = None \<and> 7 \<le> powerup_timer g + dt
          then g\<lparr> powerup_timer := 0,
                   powerup := Some \<lparr> PowerUp.x = real_of_int (120 + int (fst ch mod 661)),
                                     PowerUp.y = real_of_int (80 + int (snd ch mod 381)),
                                     PowerUp.r = 12, PowerUp.active = True \<rparr> \<rparr>
          else g\<lparr> powerup_timer := powerup_timer g + dt \<rparr>)"
  using assms
  by (simp add: update_powerup_timer_def spawn_powerup_def randint_def Config_defaults_def Let_def)

lemma update_goal_Inr:
  "update_goal g dl dr =
     Inr (let g1 = (if Ball.x (ball g) + real_of_int (Ball.r (ball g)) < 0
                    then g\<lparr> right_score := right_score g + 1,
                            ball := (ball g)\<lparr> Ball.x := real_of_int (width (cfg g)) / 2,
                                              Ball.y := real_of_int (height (cfg g)) / 2,
                                              Ball.speed := ball_speed (cfg g),
                                              Ball.vx := - cos (fst dl), Ball.vy := sin (fst dl) \<rparr>,
                            boost_timer := 0 \<rparr>
                    else g)
          in if Ball.x (ball g1) - real_of_int (Ball.r (ball g1)) > real_of_int (width (cfg g1))
             then g1\<lparr> left_score := left_score g1 + 1,
                      ball := (ball g1)\<lparr> Ball.x := real_of_int (width (cfg g1)) / 2,
                                         Ball.y := real_of_int (height (cfg g1)) / 2,
                                         Ball.speed := ball_speed (cfg g1),
                                         Ball.vx := cos (fst dr), Ball.vy := sin (fst dr) \<rparr>,
                      boost_timer := 0 \<rparr>
             else g1)"
  by (simp add: update_goal_def reset_round_Inr Let_def)

section \<open>Geometry of the configured arena\<close>

lemma wf_gameD:
  assumes "wf_game g"
  shows "cfg g = Config_defaults"
    and "Paddle.x (left g) = 28" and "Paddle.w (left g) = 14" and "Paddle.h (left g) = 110"
    and "Paddle.x (right g) = 858" and "Paddle.w (right g) = 14" and "Paddle.h (right g) = 110"
    and "Ball.r (ball g) = 10"
    and "360 \<le> Ball.speed (ball g)" and "Ball.speed (ball g) \<le> 860"
  using assms by (simp_all add: wf_game_def)

lemma colliderect_left_paddle:
  assumes "Paddle.x p = 28" "Paddle.w p = 14" "Paddle.h p = 110" "Ball.r b = 10"
  shows "colliderect (Ball_rect b) (Paddle_rect p) \<Longrightarrow> py_int (Ball.x b - 10) < 42"
  using assms
  by (simp add: colliderect_def Ball_rect_def Paddle_rect_def Rect_right_def Rect_bottom_def
        py_int_def split: if_splits)

lemma colliderect_right_paddle:
  assumes "Paddle.x p = 858" "Paddle.w p = 14" "Paddle.h p = 110" "Ball.r b = 10"
  shows "colliderect (Ball_rect b) (Paddle_rect p) \<Longrightarrow> 838 < py_int (Ball.x b - 10)"
  using assms
  by (simp add: colliderect_def Ball_rect_def Paddle_rect_def Rect_right_def Rect_bottom_def
        py_int_def split: if_splits)

lemma no_double_hit:
  assumes "wf_game g" and "Ball.r b = 10"
  shows "\<not> (colliderect (Ball_rect b) (Paddle_rect (left g))
           \<and> colliderect (Ball_rect b) (Paddle_rect (right g)))"
  using colliderect_left_paddle [of "left g" b] colliderect_right_paddle [of "right g" b]
    wf_gameD [OF assms(1)] assms(2)
  by fastforce

lemma Vector2_length_pos: "a \<noteq> 0 \<Longrightarrow> 0 < Vector2_length (a, c)"
  using Vector2_length_nonneg [of "(a, c)"] Vector2_length_eq_0_iff [of "(a, c)"]
  by (simp add: less_le)

section \<open>Paddle bounces\<close>

lemma update_paddle_collision_wf:
  assumes wf: "wf_game g"
  shows "update_paddle_collision g =
    Inr (if colliderect (Ball_rect (ball g)) (Paddle_rect (left g)) \<and> Ball.vx (ball g) < 0
         then g\<lparr> ball := (ball g)\<lparr>
                  Ball.x := Paddle.x (left g) + real_of_int (Paddle.w (left g))
                            + real_of_int (Ball.r (ball g)),
                  Ball.vx := \<bar>Ball.vx (ball g)\<bar>
                    / Vector2_length (\<bar>Ball.vx (ball g)\<bar>,
                        clamp ((Ball.y (ball g) - center_y (left g))
                               / (real_of_int (Paddle.h (left g)) / 2)) (- 1) 1 * 0.95),
                  Ball.vy := clamp ((Ball.y (ball g) - center_y (left g))
                               / (real_of_int (Paddle.h (left g)) / 2)) (- 1) 1 * 0.95
                    / Vector2_length (\<bar>Ball.vx (ball g)\<bar>,
                        clamp ((Ball.y (ball g) - center_y (left g))
                               / (real_of_int (Paddle.h (left g)) / 2)) (- 1) 1 * 0.95),
                  Ball.speed := min (ball_speed_max (cfg g)) (Ball.speed (ball g) * 1.03) \<rparr> \<rparr>
         else if colliderect (Ball_rect (ball g)) (Paddle_rect (right g)) \<and> Ball.vx (ball g) > 0
         then g\<lparr> ball := (ball g)\<lparr>
                  Ball.x := Paddle.x (right g) - real_of_int (Ball.r (ball g)),
                  Ball.vx := - \<bar>Ball.vx (ball g)\<bar>
                    / Vector2_length (- \<bar>Ball.vx (ball g)\<bar>,
                        clamp ((Ball.y (ball g) - center_y (right g))
                               / (real_of_int (Paddle.h (right g)) / 2)) (- 1) 1 * 0.95),
                  Ball.vy := clamp ((Ball.y (ball g) - center_y (right g))
                               / (real_of_int (Paddle.h (right g)) / 2)) (- 1) 1 * 0.95
                    / Vector2_length (- \<bar>Ball.vx (ball g)\<bar>,
                        clamp ((Ball.y (ball g) - center_y (right g))
                               / (real_of_int (Paddle.h (right g)) / 2)) (- 1) 1 * 0.95),
                  Ball.speed := min (ball_speed_max (cfg g)) (Ball.speed (ball g) * 1.03) \<rparr> \<rparr>
         else g)"
    (is "_ = Inr (if ?L then ?gl else if ?R then ?gr else g)")
proof -
  note d = wf_gameD [OF wf]
  have nd: "\<not> (colliderect (Ball_rect (ball g)) (Paddle_rect (left g))
           \<and> colliderect (Ball_rect (ball g)) (Paddle_rect (right g)))"
    using no_double_hit [OF wf d(8)] .
  show ?thesis
  proof (cases ?L)
    case True
    then have nz: "Ball.vx (ball g) \<noteq> 0" by simp
    have nr: "\<not> colliderect (Ball_rect (ball g)) (Paddle_rect (right g))"
      using True nd by blast
    have hl: "Paddle.h (left g) \<noteq> 0" using d(4) by simp
    have b: "apply_paddle_bounce (cfg g)
        ((ball g)\<lparr> Ball.x := Paddle.x (left g) + real_of_int (Paddle.w (left g))
                                          + real_of_int (Ball.r (ball g)) \<rparr>) (left g) True
        = Inr (ball ?gl)"
      using apply_paddle_bounce_moving [OF hl, of "(ball g)\<lparr> Ball.x := Paddle.x (left g) + real_of_int (Paddle.w (left g))
                                          + real_of_int (Ball.r (ball g)) \<rparr>" "cfg g" True] nz
      by simp
    show ?thesis
      using True nr by (simp add: update_paddle_collision_def Let_def b)
  next
    case False
    show ?thesis
    proof (cases ?R)
      case True
      then have nz: "Ball.vx (ball g) \<noteq> 0" by simp
      have hr: "Paddle.h (right g) \<noteq> 0" using d(7) by simp
      have b: "apply_paddle_bounce (cfg g)
          ((ball g)\<lparr> Ball.x := Paddle.x (right g) - real_of_int (Ball.r (ball g)) \<rparr>) (right g) False
          = Inr (ball ?gr)"
        using apply_paddle_bounce_moving [OF hr, of "(ball g)\<lparr> Ball.x := Paddle.x (right g) - real_of_int (Ball.r (ball g)) \<rparr>" "cfg g" False] nz
        by simp
      show ?thesis
        using True False by (simp add: update_paddle_collision_def Let_def b)
    next
      case F2: False
      show ?thesis
        using False F2 by (auto simp add: update_paddle_collision_def Let_def)
    qed
  qed
qed


lemma Vector2_length_abs_neg [simp]: "Vector2_length (- a, c) = Vector2_length (a, c)"
  by (simp add: Vector2_length_def)

text \<open>
  C2. In every state the game can be in, the paddle block of the step returns and changes
  nothing but the ball; it changes the ball exactly when the ball's bounding box overlaps a
  paddle's rectangle while the ball moves toward that paddle. On such a bounce the ball's
  \<open>x\<close> is put at the paddle's face plus (left) or minus (right) the radius, the sign of
  \<open>vx\<close> points away from the paddle, the direction is \<open>(\<plusminus>|vx|, offset * 0.95)\<close> divided by
  its length, with \<open>offset = clamp((ball.y - paddle.center_y) / (paddle.h / 2), -1, 1)\<close>, so
  it is a unit vector (the fallback for the zero vector is never needed: \<open>vx\<close> is not 0),
  and the speed becomes \<open>min(ball_speed_max, speed * 1.03)\<close>.
\<close>

theorem paddle_bounce:
  assumes "wf_game g"
  shows "\<exists>g'. update_paddle_collision g = Inr g' \<and> g' = g\<lparr> ball := ball g' \<rparr>
     \<and> (ball g' \<noteq> ball g \<longleftrightarrow> hits_left g \<or> hits_right g)
     \<and> (hits_left g \<longrightarrow>
          Ball.x (ball g') = Paddle.x (left g) + real_of_int (Paddle.w (left g))
                             + real_of_int (Ball.r (ball g))
        \<and> 0 < Ball.vx (ball g')
        \<and> Ball.vx (ball g') = \<bar>Ball.vx (ball g)\<bar>
            / Vector2_length (\<bar>Ball.vx (ball g)\<bar>, bounce_offset (ball g) (left g))
        \<and> Ball.vy (ball g') = bounce_offset (ball g) (left g)
            / Vector2_length (\<bar>Ball.vx (ball g)\<bar>, bounce_offset (ball g) (left g)))
     \<and> (hits_right g \<longrightarrow>
          Ball.x (ball g') = Paddle.x (right g) - real_of_int (Ball.r (ball g))
        \<and> Ball.vx (ball g') < 0
        \<and> Ball.vx (ball g') = - \<bar>Ball.vx (ball g)\<bar>
            / Vector2_length (- \<bar>Ball.vx (ball g)\<bar>, bounce_offset (ball g) (right g))
        \<and> Ball.vy (ball g') = bounce_offset (ball g) (right g)
            / Vector2_length (- \<bar>Ball.vx (ball g)\<bar>, bounce_offset (ball g) (right g)))
     \<and> (hits_left g \<or> hits_right g \<longrightarrow>
          (Ball.vx (ball g'))\<^sup>2 + (Ball.vy (ball g'))\<^sup>2 = 1
        \<and> Ball.speed (ball g') = min (ball_speed_max (cfg g)) (Ball.speed (ball g) * 1.03)
        \<and> Ball.y (ball g') = Ball.y (ball g) \<and> Ball.r (ball g') = Ball.r (ball g))"
proof (cases "hits_left g")
  case True
  then have nz: "Ball.vx (ball g) \<noteq> 0" and neg: "Ball.vx (ball g) < 0"
    by (simp_all add: hits_left_def)
  have nr: "\<not> hits_right g" using neg by (simp add: hits_right_def)
  let ?o = "bounce_offset (ball g) (left g)"
  have pos: "0 < Vector2_length (\<bar>Ball.vx (ball g)\<bar>, ?o)"
    using nz by (intro Vector2_length_pos) simp
  have unit: "(\<bar>Ball.vx (ball g)\<bar> / Vector2_length (\<bar>Ball.vx (ball g)\<bar>, ?o))\<^sup>2
            + (?o / Vector2_length (\<bar>Ball.vx (ball g)\<bar>, ?o))\<^sup>2 = 1"
    using Vector2_normalize_unit [of "(\<bar>Ball.vx (ball g)\<bar>, ?o)"] pos by simp
  have vpos: "0 < \<bar>Ball.vx (ball g)\<bar> / Vector2_length (\<bar>Ball.vx (ball g)\<bar>, ?o)"
    using nz pos by simp
  have ne: "\<bar>Ball.vx (ball g)\<bar> / Vector2_length (\<bar>Ball.vx (ball g)\<bar>, ?o) \<noteq> Ball.vx (ball g)"
    using vpos neg by linarith
  have eq: "update_paddle_collision g = Inr (g\<lparr> ball := (ball g)\<lparr>
                  Ball.x := Paddle.x (left g) + real_of_int (Paddle.w (left g))
                            + real_of_int (Ball.r (ball g)),
                  Ball.vx := \<bar>Ball.vx (ball g)\<bar> / Vector2_length (\<bar>Ball.vx (ball g)\<bar>, ?o),
                  Ball.vy := ?o / Vector2_length (\<bar>Ball.vx (ball g)\<bar>, ?o),
                  Ball.speed := min (ball_speed_max (cfg g)) (Ball.speed (ball g) * 1.03) \<rparr> \<rparr>)"
    using True unfolding update_paddle_collision_wf [OF assms] hits_left_def bounce_offset_def
    by simp
  have diff: "(ball g)\<lparr>
                  Ball.x := Paddle.x (left g) + real_of_int (Paddle.w (left g))
                            + real_of_int (Ball.r (ball g)),
                  Ball.vx := \<bar>Ball.vx (ball g)\<bar> / Vector2_length (\<bar>Ball.vx (ball g)\<bar>, ?o),
                  Ball.vy := ?o / Vector2_length (\<bar>Ball.vx (ball g)\<bar>, ?o),
                  Ball.speed := min (ball_speed_max (cfg g)) (Ball.speed (ball g) * 1.03) \<rparr>
              \<noteq> ball g" (is "?b \<noteq> _")
  proof
    assume "?b = ball g"
    then have "Ball.vx ?b = Ball.vx (ball g)" by simp
    then show False using ne by simp
  qed
  show ?thesis
    unfolding eq using True nr vpos unit diff by simp
next
  case False
  show ?thesis
  proof (cases "hits_right g")
    case True
    then have nz: "Ball.vx (ball g) \<noteq> 0" and gt: "Ball.vx (ball g) > 0"
      by (simp_all add: hits_right_def)
    let ?o = "bounce_offset (ball g) (right g)"
    have pos: "0 < Vector2_length (\<bar>Ball.vx (ball g)\<bar>, ?o)"
      using nz by (intro Vector2_length_pos) simp
    have unit: "(\<bar>Ball.vx (ball g)\<bar> / Vector2_length (\<bar>Ball.vx (ball g)\<bar>, ?o))\<^sup>2
              + (?o / Vector2_length (\<bar>Ball.vx (ball g)\<bar>, ?o))\<^sup>2 = 1"
      using Vector2_normalize_unit [of "(\<bar>Ball.vx (ball g)\<bar>, ?o)"] pos by simp
    have vpos: "0 < \<bar>Ball.vx (ball g)\<bar> / Vector2_length (\<bar>Ball.vx (ball g)\<bar>, ?o)"
      using nz pos by simp
    have ne: "- (\<bar>Ball.vx (ball g)\<bar> / Vector2_length (\<bar>Ball.vx (ball g)\<bar>, ?o)) \<noteq> Ball.vx (ball g)"
      using vpos gt by linarith
    have eq: "update_paddle_collision g = Inr (g\<lparr> ball := (ball g)\<lparr>
                  Ball.x := Paddle.x (right g) - real_of_int (Ball.r (ball g)),
                  Ball.vx := - (\<bar>Ball.vx (ball g)\<bar> / Vector2_length (\<bar>Ball.vx (ball g)\<bar>, ?o)),
                  Ball.vy := ?o / Vector2_length (\<bar>Ball.vx (ball g)\<bar>, ?o),
                  Ball.speed := min (ball_speed_max (cfg g)) (Ball.speed (ball g) * 1.03) \<rparr> \<rparr>)"
      using True False
      unfolding update_paddle_collision_wf [OF assms] hits_left_def hits_right_def bounce_offset_def
      by simp
    have diff: "(ball g)\<lparr>
                  Ball.x := Paddle.x (right g) - real_of_int (Ball.r (ball g)),
                  Ball.vx := - (\<bar>Ball.vx (ball g)\<bar> / Vector2_length (\<bar>Ball.vx (ball g)\<bar>, ?o)),
                  Ball.vy := ?o / Vector2_length (\<bar>Ball.vx (ball g)\<bar>, ?o),
                  Ball.speed := min (ball_speed_max (cfg g)) (Ball.speed (ball g) * 1.03) \<rparr>
              \<noteq> ball g" (is "?b \<noteq> _")
    proof
      assume "?b = ball g"
      then have "Ball.vx ?b = Ball.vx (ball g)" by simp
      then show False using ne by simp
    qed
    show ?thesis
      unfolding eq using True False vpos unit diff by simp
  next
    case F2: False
    have eq: "update_paddle_collision g = Inr g"
      using False F2
      unfolding update_paddle_collision_wf [OF assms] hits_left_def hits_right_def
      by auto
    show ?thesis
      unfolding eq using False F2 by simp
  qed
qed


theorem paddle_bounce_witness:
  "wf_game (kickoff\<lparr> ball := \<lparr> Ball.x = 50, Ball.y = 270, Ball.r = 10, Ball.vx = - 1,
                                 Ball.vy = 0, Ball.speed = 360 \<rparr> \<rparr>)
   \<and> hits_left (kickoff\<lparr> ball := \<lparr> Ball.x = 50, Ball.y = 270, Ball.r = 10, Ball.vx = - 1,
                                 Ball.vy = 0, Ball.speed = 360 \<rparr> \<rparr>)
   \<and> (\<exists>g'. update_paddle_collision
              (kickoff\<lparr> ball := \<lparr> Ball.x = 50, Ball.y = 270, Ball.r = 10, Ball.vx = - 1,
                                  Ball.vy = 0, Ball.speed = 360 \<rparr> \<rparr>) = Inr g'
          \<and> Ball.x (ball g') = 52 \<and> Ball.vx (ball g') = 1 \<and> Ball.vy (ball g') = 0
          \<and> Ball.speed (ball g') = 370.8)"
proof -
  let ?g = "kickoff\<lparr> ball := \<lparr> Ball.x = 50, Ball.y = 270, Ball.r = 10, Ball.vx = - 1,
                                 Ball.vy = 0, Ball.speed = 360 \<rparr> \<rparr>"
  have wf: "wf_game ?g" by (simp add: wf_game_def kickoff_def)
  have hit: "hits_left ?g"
    by (simp add: hits_left_def colliderect_def Ball_rect_def Paddle_rect_def Rect_right_def
          Rect_bottom_def py_int_def kickoff_def)
  have off: "bounce_offset (ball ?g) (left ?g) = 0"
    by (simp add: bounce_offset_def center_y_def clamp_def kickoff_def)
  have len: "Vector2_length (1, 0) = 1" by (simp add: Vector2_length_def)
  show ?thesis
    using paddle_bounce [OF wf] wf hit off len
    by (auto simp add: kickoff_def Config_defaults_def)
qed

section \<open>The invariant holds along every run\<close>

lemma wf_update_powerup_timer:
  assumes "wf_game g"
  shows "\<exists>g'. update_powerup_timer g dt ch = Inr g' \<and> wf_game g'
           \<and> cfg g' = cfg g \<and> state g' = state g \<and> left g' = left g \<and> right g' = right g
           \<and> ball g' = ball g \<and> left_score g' = left_score g \<and> right_score g' = right_score g
           \<and> boost_timer g' = boost_timer g"
proof -
  have c: "cfg g = Config_defaults" using assms by (simp add: wf_game_def)
  have m1: "int (fst ch mod 661) \<le> 660" by simp
  have m2: "int (snd ch mod 381) \<le> 380" by simp
  show ?thesis
    unfolding update_powerup_timer_defaults [OF c]
    using assms m1 m2 by (simp add: wf_game_def)
qed

lemma wf_update_boost_timer: "wf_game g \<Longrightarrow> wf_game (update_boost_timer g dt)"
  by (simp add: wf_game_def)

lemma wf_update_ball_motion: "wf_game g \<Longrightarrow> wf_game (update_ball_motion g dt)"
  by (simp add: wf_game_def)

lemma wf_update_wall_collision: "wf_game g \<Longrightarrow> wf_game (update_wall_collision g)"
  by (simp add: wf_game_def)

lemma wf_update_powerup_contact: "wf_game g \<Longrightarrow> wf_game (update_powerup_contact g)"
  by (cases "powerup g") (auto simp add: wf_game_def update_powerup_contact_def)

lemma wf_update_win: "wf_game g \<Longrightarrow> wf_game (update_win g)"
  by (simp add: wf_game_def update_win_def)

lemma wf_handle_input: "wf_game g \<Longrightarrow> wf_game (handle_input g keys dt)"
  by (simp add: wf_game_def)

lemma wf_step_to_walls:
  assumes "wf_game g"
  shows "\<exists>g'. step_to_walls g dt ch = Inr g' \<and> wf_game g'
           \<and> cfg g' = cfg g \<and> state g' = state g \<and> left g' = left g \<and> right g' = right g
           \<and> left_score g' = left_score g \<and> right_score g' = right_score g
           \<and> Ball.speed (ball g') = Ball.speed (ball g)"
proof -
  obtain g1 where g1: "update_powerup_timer g dt ch = Inr g1" "wf_game g1"
      "cfg g1 = cfg g" "state g1 = state g" "left g1 = left g" "right g1 = right g"
      "ball g1 = ball g" "left_score g1 = left_score g" "right_score g1 = right_score g"
    using wf_update_powerup_timer [OF assms, of dt ch] by blast
  show ?thesis
    using g1
    by (simp add: step_to_walls_def wf_update_wall_collision wf_update_ball_motion
          wf_update_boost_timer)
qed

lemma speed_step_bounds:
  fixes s :: real
  assumes "360 \<le> s" "s \<le> 860"
  shows "360 \<le> min 860 (s * 1.03)" "min 860 (s * 1.03) \<le> 860" "s \<le> min 860 (s * 1.03)"
  using assms by simp_all

lemma wf_update_paddle_collision:
  assumes "wf_game g"
  shows "\<exists>g'. update_paddle_collision g = Inr g' \<and> wf_game g' \<and> g' = g\<lparr> ball := ball g' \<rparr>
           \<and> Ball.speed (ball g')
               = (if hits_left g \<or> hits_right g then min 860 (Ball.speed (ball g) * 1.03)
                  else Ball.speed (ball g))
           \<and> (\<not> hits_left g \<and> \<not> hits_right g \<longrightarrow> g' = g)
           \<and> (hits_left g \<longrightarrow> Ball.x (ball g') = 52)
           \<and> (hits_right g \<longrightarrow> Ball.x (ball g') = 848)"
proof -
  note d = wf_gameD [OF assms]
  have m: "ball_speed_max (cfg g) = 860" using d(1) by (simp add: Config_defaults_def)
  note b = speed_step_bounds [OF d(9,10)]
  have excl: "\<not> (hits_left g \<and> hits_right g)"
    by (auto simp add: hits_left_def hits_right_def)
  consider (l) "hits_left g" "\<not> hits_right g" | (r) "hits_right g" "\<not> hits_left g"
    | (n) "\<not> hits_left g" "\<not> hits_right g"
    using excl by blast
  then show ?thesis
  proof cases
    case l
    then show ?thesis
      unfolding update_paddle_collision_wf [OF assms]
      using assms b m d by (simp add: hits_left_def hits_right_def wf_game_def)
  next
    case r
    then show ?thesis
      unfolding update_paddle_collision_wf [OF assms]
      using assms b m d by (simp add: hits_left_def hits_right_def wf_game_def)
  next
    case n
    then show ?thesis
      unfolding update_paddle_collision_wf [OF assms]
      using assms by (auto simp add: hits_left_def hits_right_def)
  qed
qed

lemma wf_update_goal:
  assumes "wf_game g"
  shows "\<exists>g'. update_goal g dl dr = Inr g' \<and> wf_game g'"
  using assms unfolding update_goal_Inr
  by (simp add: wf_game_def Let_def Config_defaults_def)

lemma wf_step_to_paddles:
  assumes "wf_game g"
  shows "\<exists>g'. step_to_paddles g dt ch = Inr g' \<and> wf_game g'"
proof -
  obtain g4 where "step_to_walls g dt ch = Inr g4" "wf_game g4"
    using wf_step_to_walls [OF assms] by blast
  then show ?thesis
    using wf_update_paddle_collision [of g4] by (auto simp add: step_to_paddles_def)
qed

lemma update_playing_alt:
  "update_playing g dt rnd =
     bind_err (step_to_paddles g dt (spawn_choices rnd)) (\<lambda>g.
     bind_err (update_goal (update_powerup_contact g)
                 (serve_after_left_goal rnd) (serve_after_right_goal rnd)) (\<lambda>g.
     Inr (update_win g)))"
  by (cases "update_powerup_timer g dt (spawn_choices rnd)")
     (simp_all add: update_playing_def step_to_paddles_def step_to_walls_def)

lemma wf_update_playing:
  assumes "wf_game g"
  shows "\<exists>g'. update_playing g dt rnd = Inr g' \<and> wf_game g'"
proof -
  obtain g5 where g5: "step_to_paddles g dt (spawn_choices rnd) = Inr g5" "wf_game g5"
    using wf_step_to_paddles [OF assms] by blast
  obtain g7 where g7: "update_goal (update_powerup_contact g5)
                 (serve_after_left_goal rnd) (serve_after_right_goal rnd) = Inr g7" "wf_game g7"
    using wf_update_goal [OF wf_update_powerup_contact [OF g5(2)]] by blast
  show ?thesis
    using g5 g7 by (simp add: update_playing_alt wf_update_win)
qed

lemma wf_play_frame:
  "wf_game g \<Longrightarrow> \<exists>g'. play_frame g f = Inr g' \<and> wf_game g'"
  unfolding play_frame_def by (intro wf_update_playing wf_handle_input)

lemma wf_restart:
  assumes "wf_game g"
  shows "\<exists>g'. restart g d = Inr g' \<and> wf_game g' \<and> state g' = PLAYING
           \<and> left_score g' = 0 \<and> right_score g' = 0"
  using assms by (simp add: restart_def reset_round_Inr wf_game_def Let_def Config_defaults_def)

lemma wf_PongGame_init: "\<exists>g. PongGame_init d = Inr g \<and> wf_game g \<and> state g = MENU"
  by (simp add: PongGame_init_def reset_round_Inr wf_game_def Let_def Config_defaults_def)

lemma wf_handle_events:
  "wf_game g \<Longrightarrow> handle_events g es d = Running g' \<Longrightarrow> wf_game g'"
proof (induction g es d rule: handle_events.induct)
  case (4 g k es drawn)
  show ?case
  proof (cases "k = K_ESCAPE")
    case True
    with 4 show ?thesis by simp
  next
    case False
    show ?thesis
    proof (cases "state g")
      case MENU
      have "wf_game (if k = K_RETURN then g\<lparr> state := PLAYING \<rparr> else g)"
        using "4.prems"(1) by (simp add: wf_game_def)
      then show ?thesis using 4 False MENU by simp
    next
      case PLAYING
      have "wf_game (if k = K_p then g\<lparr> state := PAUSED \<rparr> else g)"
        using "4.prems"(1) by (simp add: wf_game_def)
      then show ?thesis using 4 False PLAYING by simp
    next
      case PAUSED
      have "wf_game (if k = K_p then g\<lparr> state := PLAYING \<rparr> else g)"
        using "4.prems"(1) by (simp add: wf_game_def)
      then show ?thesis using 4 False PAUSED by simp
    next
      case GAMEOVER
      show ?thesis
      proof (cases "k = K_r")
        case True
        obtain g1 where g1: "restart g drawn = Inr g1" "wf_game g1"
          using wf_restart [OF "4.prems"(1)] by blast
        then show ?thesis using 4 False GAMEOVER True by simp
      next
        case F: False
        then show ?thesis using 4 False GAMEOVER by simp
      qed
    qed
  qed
qed simp_all

lemma wf_run_frame:
  assumes "wf_game g" and "run_frame g f = Running g'"
  shows "wf_game g'"
proof -
  from assms(2) obtain g1 where g1: "handle_events g (frame_events f) (frame_restart_draw f) = Running g1"
    by (auto simp add: run_frame_def split: Outcome.splits)
  have w1: "wf_game g1" using wf_handle_events [OF assms(1) g1] .
  show ?thesis
  proof (cases "state g1 = PLAYING")
    case True
    obtain g2 where "play_frame g1 f = Inr g2" "wf_game g2"
      using wf_play_frame [OF w1] by blast
    then show ?thesis using assms(2) g1 True by (simp add: run_frame_def)
  next
    case False
    then show ?thesis using assms(2) g1 w1 by (simp add: run_frame_def)
  qed
qed

lemma wf_run: "wf_game g \<Longrightarrow> run g fs = Running g' \<Longrightarrow> wf_game g'"
proof (induction fs arbitrary: g)
  case Nil
  then show ?case by simp
next
  case (Cons f fs)
  then show ?case
    by (auto split: Outcome.splits dest: wf_run_frame)
qed

text \<open>The game never raises: from \<open>__init__\<close> on, a frame either returns or goes on.\<close>

lemma run_frame_no_raise: "wf_game g \<Longrightarrow> run_frame g f \<noteq> Raised e"
proof
  assume wf: "wf_game g" and r: "run_frame g f = Raised e"
  show False
  proof (cases "handle_events g (frame_events f) (frame_restart_draw f)")
    case Returned
    then show ?thesis using r by (simp add: run_frame_def)
  next
    case (Raised e')
    have "\<And>es d. wf_game g \<Longrightarrow> handle_events g es d \<noteq> Raised e'" for g
    proof -
      fix es d
      show "wf_game g \<Longrightarrow> handle_events g es d \<noteq> Raised e'" for g
      proof (induction g es d rule: handle_events.induct)
        case (4 g k es drawn)
        obtain g1 where g1: "restart g drawn = Inr g1" "wf_game g1"
          using wf_restart [OF "4.prems"] by blast
        have s: "\<And>st. wf_game (g\<lparr> state := st \<rparr>)"
          using "4.prems" by (simp add: wf_game_def)
        show ?case
          using 4 g1 s by (cases "state g") (auto split: if_splits)
      qed simp_all
    qed
    then show ?thesis using wf Raised by blast
  next
    case (Running g1)
    have w1: "wf_game g1" using wf_handle_events [OF wf Running] .
    obtain g2 where "play_frame g1 f = Inr g2"
      using wf_play_frame [OF w1] by blast
    then show ?thesis using r Running by (simp add: run_frame_def split: if_splits)
  qed
qed

section \<open>Goals\<close>








section \<open>The power-up: contact, and goals that leave it alone\<close>

lemma Vector2_length_ge_fst: "\<bar>a\<bar> \<le> Vector2_length (a, c)"
proof -
  have "sqrt (a * a) \<le> sqrt (a * a + c * c)" by (rule real_sqrt_le_mono) simp
  then show ?thesis by (simp add: Vector2_length_def)
qed

lemma update_goal_frame:
  "\<exists>g'. update_goal g dl dr = Inr g'
     \<and> cfg g' = cfg g \<and> state g' = state g \<and> left g' = left g \<and> right g' = right g
     \<and> powerup g' = powerup g \<and> powerup_timer g' = powerup_timer g
     \<and> Ball.r (ball g') = Ball.r (ball g)"
  unfolding update_goal_Inr by (simp add: Let_def)

lemma step_to_paddles_wf:
  assumes "wf_game g" and "step_to_paddles g dt ch = Inr g5"
  shows "wf_game g5"
  using wf_step_to_paddles [OF assms(1), of dt ch] assms(2) by simp

text \<open>A ball touching a power-up that \<open>spawn_powerup\<close> placed is inside the arena.\<close>

lemma contact_excludes_goal:
  assumes "wf_game g" and "powerup g = Some p"
    and "Vector2_length (Ball.x (ball g) - PowerUp.x p, Ball.y (ball g) - PowerUp.y p)
           \<le> real_of_int (Ball.r (ball g) + PowerUp.r p)"
  shows "\<not> Ball.x (ball g) + real_of_int (Ball.r (ball g)) < 0"
    and "\<not> Ball.x (ball g) - real_of_int (Ball.r (ball g)) > real_of_int (width (cfg g))"
proof -
  note d = wf_gameD [OF assms(1)]
  have p: "120 \<le> PowerUp.x p" "PowerUp.x p \<le> 780" "PowerUp.r p = 12"
    using assms(1,2) by (simp_all add: wf_game_def)
  have "\<bar>Ball.x (ball g) - PowerUp.x p\<bar> \<le> 22"
    using Vector2_length_ge_fst [of "Ball.x (ball g) - PowerUp.x p" "Ball.y (ball g) - PowerUp.y p"]
      assms(3) d(8) p(3) by simp
  then show "\<not> Ball.x (ball g) + real_of_int (Ball.r (ball g)) < 0"
    and "\<not> Ball.x (ball g) - real_of_int (Ball.r (ball g)) > real_of_int (width (cfg g))"
    using p d(1,8) by (simp_all add: Config_defaults_def)
qed

text \<open>
  C7. In a step of a state the game can be in, let \<open>g5\<close> be the state on which the step
  tests the power-up (after timers, motion, walls and paddles). If a power-up is there,
  active, and the distance between the centres of ball and power-up is at most the sum of
  the radii, then the step returns with no power-up and with the boost timer equal to
  \<open>boost_duration_sec\<close>, which is 1.2.
\<close>

theorem powerup_contact_boosts:
  assumes "wf_game g" and "step_to_paddles g dt (spawn_choices rnd) = Inr g5"
    and "powerup g5 = Some p" and "PowerUp.active p"
    and "Vector2_length (Ball.x (ball g5) - PowerUp.x p, Ball.y (ball g5) - PowerUp.y p)
           \<le> real_of_int (Ball.r (ball g5) + PowerUp.r p)"
  shows "\<exists>g'. update_playing g dt rnd = Inr g' \<and> powerup g' = None
           \<and> boost_timer g' = boost_duration_sec (cfg g)
           \<and> boost_duration_sec (cfg g) = 1.2"
proof -
  have w5: "wf_game g5" using step_to_paddles_wf [OF assms(1,2)] .
  have c: "cfg g = Config_defaults" "cfg g5 = Config_defaults"
    using assms(1) w5 by (simp_all add: wf_game_def)
  note ng = contact_excludes_goal [OF w5 assms(3,5)]
  have g6: "update_powerup_contact g5
              = g5\<lparr> powerup := None, boost_timer := boost_duration_sec (cfg g5) \<rparr>"
    using assms(3,4,5) by (simp add: update_powerup_contact_def Ball_pos_def)
  show ?thesis
    using ng c
    by (simp add: update_playing_alt assms(2) g6 update_goal_Inr Let_def Config_defaults_def)
qed

text \<open>
  C10. The goal block returns and leaves the power-up, the power-up timer, the paddles, the
  state and the configuration as they are. In a step of a state the game can be in, if
  the ball is past a boundary when the goal test runs, only the scorer's score changes
  (by one), and a power-up that was on the field before the step is still there after it,
  with the power-up timer advanced by \<open>dt\<close> and not reset.
\<close>

theorem goal_keeps_powerup:
  assumes "wf_game g" and "step_to_paddles g dt (spawn_choices rnd) = Inr g5"
    and "Ball.x (ball g5) + real_of_int (Ball.r (ball g5)) < 0
         \<or> Ball.x (ball g5) - real_of_int (Ball.r (ball g5)) > real_of_int (width (cfg g5))"
  shows "(\<exists>g7. update_goal (update_powerup_contact g5)
                  (serve_after_left_goal rnd) (serve_after_right_goal rnd) = Inr g7
            \<and> powerup g7 = powerup (update_powerup_contact g5)
            \<and> powerup_timer g7 = powerup_timer (update_powerup_contact g5)
            \<and> left g7 = left (update_powerup_contact g5)
            \<and> right g7 = right (update_powerup_contact g5)
            \<and> state g7 = state (update_powerup_contact g5)
            \<and> cfg g7 = cfg (update_powerup_contact g5))
       \<and> (\<exists>g'. update_playing g dt rnd = Inr g'
            \<and> powerup g' = powerup g5 \<and> powerup_timer g' = powerup_timer g5
            \<and> left g' = left g5 \<and> right g' = right g5
            \<and> (Ball.x (ball g5) + real_of_int (Ball.r (ball g5)) < 0 \<longrightarrow>
                  right_score g' = right_score g5 + 1 \<and> left_score g' = left_score g5)
            \<and> (Ball.x (ball g5) - real_of_int (Ball.r (ball g5)) > real_of_int (width (cfg g5)) \<longrightarrow>
                  left_score g' = left_score g5 + 1 \<and> right_score g' = right_score g5)
            \<and> (\<forall>p. powerup g = Some p \<longrightarrow>
                  powerup g' = Some p \<and> powerup_timer g' = powerup_timer g + dt))"
proof -
  have w5: "wf_game g5" using step_to_paddles_wf [OF assms(1,2)] .
  note d = wf_gameD [OF w5]
  have cw: "width (cfg g5) = 900" "Ball.r (ball g5) = 10"
    using d by (simp_all add: Config_defaults_def)
  have c: "cfg g = Config_defaults" using assms(1) by (simp add: wf_game_def)
  have nc: "update_powerup_contact g5 = g5"
  proof (cases "powerup g5")
    case None
    then show ?thesis by (simp add: update_powerup_contact_def)
  next
    case (Some p)
    have "\<not> Vector2_length (Ball.x (ball g5) - PowerUp.x p, Ball.y (ball g5) - PowerUp.y p)
           \<le> real_of_int (Ball.r (ball g5) + PowerUp.r p)"
      using contact_excludes_goal [OF w5 Some] assms(3) by blast
    then show ?thesis using Some by (simp add: update_powerup_contact_def Ball_pos_def)
  qed
  have first: "\<exists>g7. update_goal (update_powerup_contact g5)
                  (serve_after_left_goal rnd) (serve_after_right_goal rnd) = Inr g7
            \<and> powerup g7 = powerup (update_powerup_contact g5)
            \<and> powerup_timer g7 = powerup_timer (update_powerup_contact g5)
            \<and> left g7 = left (update_powerup_contact g5)
            \<and> right g7 = right (update_powerup_contact g5)
            \<and> state g7 = state (update_powerup_contact g5)
            \<and> cfg g7 = cfg (update_powerup_contact g5)"
    using update_goal_frame by blast
  have pre: "\<forall>p. powerup g = Some p \<longrightarrow>
                 powerup g5 = Some p \<and> powerup_timer g5 = powerup_timer g + dt"
  proof (intro allI impI)
    fix p assume p: "powerup g = Some p"
    have t: "update_powerup_timer g dt (spawn_choices rnd)
               = Inr (g\<lparr> powerup_timer := powerup_timer g + dt \<rparr>)"
      using p unfolding update_powerup_timer_defaults [OF c] by simp
    let ?g4 = "update_wall_collision (update_ball_motion
                 (update_boost_timer (g\<lparr> powerup_timer := powerup_timer g + dt \<rparr>) dt) dt)"
    have s: "update_paddle_collision ?g4 = Inr g5"
      using assms(2) by (simp add: step_to_paddles_def step_to_walls_def t)
    have w4: "wf_game ?g4"
      using assms(1)
      by (intro wf_update_wall_collision wf_update_ball_motion wf_update_boost_timer)
         (simp add: wf_game_def)
    obtain g5' where "update_paddle_collision ?g4 = Inr g5'" "g5' = ?g4\<lparr> ball := ball g5' \<rparr>"
      using wf_update_paddle_collision [OF w4] by blast
    then have e: "g5 = ?g4\<lparr> ball := ball g5 \<rparr>" using s by simp
    have "powerup g5 = powerup ?g4" "powerup_timer g5 = powerup_timer ?g4"
      by (subst e, simp)+
    then show "powerup g5 = Some p \<and> powerup_timer g5 = powerup_timer g + dt"
      using p by simp
  qed
  have second: "\<exists>g'. update_playing g dt rnd = Inr g'
            \<and> powerup g' = powerup g5 \<and> powerup_timer g' = powerup_timer g5
            \<and> left g' = left g5 \<and> right g' = right g5
            \<and> (Ball.x (ball g5) + real_of_int (Ball.r (ball g5)) < 0 \<longrightarrow>
                  right_score g' = right_score g5 + 1 \<and> left_score g' = left_score g5)
            \<and> (Ball.x (ball g5) - real_of_int (Ball.r (ball g5)) > real_of_int (width (cfg g5)) \<longrightarrow>
                  left_score g' = left_score g5 + 1 \<and> right_score g' = right_score g5)
            \<and> (\<forall>p. powerup g = Some p \<longrightarrow>
                  powerup g' = Some p \<and> powerup_timer g' = powerup_timer g + dt)"
    using pre cw
    by (simp add: update_playing_alt assms(2) nc update_goal_Inr Let_def)
  show ?thesis using first second by blast
qed


theorem powerup_contact_boosts_witness:
  "wf_game (kickoff\<lparr> ball := \<lparr> Ball.x = 500, Ball.y = 300, Ball.r = 10, Ball.vx = 1,
                                 Ball.vy = 0, Ball.speed = 360 \<rparr>,
                      powerup := Some \<lparr> PowerUp.x = 500, PowerUp.y = 300, PowerUp.r = 12, PowerUp.active = True \<rparr> \<rparr>)
   \<and> step_to_paddles (kickoff\<lparr> ball := \<lparr> Ball.x = 500, Ball.y = 300, Ball.r = 10, Ball.vx = 1,
                                 Ball.vy = 0, Ball.speed = 360 \<rparr>,
                      powerup := Some \<lparr> PowerUp.x = 500, PowerUp.y = 300, PowerUp.r = 12, PowerUp.active = True \<rparr> \<rparr>) (1 / 60) (0, 0) = Inr (kickoff\<lparr> ball := \<lparr> Ball.x = 506, Ball.y = 300, Ball.r = 10, Ball.vx = 1,
                                 Ball.vy = 0, Ball.speed = 360 \<rparr>,
                      powerup := Some \<lparr> PowerUp.x = 500, PowerUp.y = 300, PowerUp.r = 12, PowerUp.active = True \<rparr>, powerup_timer := 1 / 60 \<rparr>)
   \<and> powerup (kickoff\<lparr> ball := \<lparr> Ball.x = 506, Ball.y = 300, Ball.r = 10, Ball.vx = 1,
                                 Ball.vy = 0, Ball.speed = 360 \<rparr>,
                      powerup := Some \<lparr> PowerUp.x = 500, PowerUp.y = 300, PowerUp.r = 12, PowerUp.active = True \<rparr>, powerup_timer := 1 / 60 \<rparr>) = Some \<lparr> PowerUp.x = 500, PowerUp.y = 300, PowerUp.r = 12, PowerUp.active = True \<rparr>
   \<and> PowerUp.active \<lparr> PowerUp.x = 500, PowerUp.y = 300, PowerUp.r = 12, PowerUp.active = True \<rparr>
   \<and> Vector2_length (Ball.x (ball (kickoff\<lparr> ball := \<lparr> Ball.x = 506, Ball.y = 300, Ball.r = 10, Ball.vx = 1,
                                 Ball.vy = 0, Ball.speed = 360 \<rparr>,
                      powerup := Some \<lparr> PowerUp.x = 500, PowerUp.y = 300, PowerUp.r = 12, PowerUp.active = True \<rparr>, powerup_timer := 1 / 60 \<rparr>)) - 500, Ball.y (ball (kickoff\<lparr> ball := \<lparr> Ball.x = 506, Ball.y = 300, Ball.r = 10, Ball.vx = 1,
                                 Ball.vy = 0, Ball.speed = 360 \<rparr>,
                      powerup := Some \<lparr> PowerUp.x = 500, PowerUp.y = 300, PowerUp.r = 12, PowerUp.active = True \<rparr>, powerup_timer := 1 / 60 \<rparr>)) - 300) \<le> 22
   \<and> (\<exists>g'. update_playing (kickoff\<lparr> ball := \<lparr> Ball.x = 500, Ball.y = 300, Ball.r = 10, Ball.vx = 1,
                                 Ball.vy = 0, Ball.speed = 360 \<rparr>,
                      powerup := Some \<lparr> PowerUp.x = 500, PowerUp.y = 300, PowerUp.r = 12, PowerUp.active = True \<rparr> \<rparr>) (1 / 60) \<lparr> spawn_choices = (0, 0), serve_after_left_goal = (0, 1),
                  serve_after_right_goal = (0, - 1) \<rparr> = Inr g'
          \<and> powerup g' = None \<and> boost_timer g' = 1.2)"
proof -
  have w: "wf_game (kickoff\<lparr> ball := \<lparr> Ball.x = 500, Ball.y = 300, Ball.r = 10, Ball.vx = 1,
                                 Ball.vy = 0, Ball.speed = 360 \<rparr>,
                      powerup := Some \<lparr> PowerUp.x = 500, PowerUp.y = 300, PowerUp.r = 12, PowerUp.active = True \<rparr> \<rparr>)" by (simp add: wf_game_def kickoff_def)
  have s: "step_to_paddles (kickoff\<lparr> ball := \<lparr> Ball.x = 500, Ball.y = 300, Ball.r = 10, Ball.vx = 1,
                                 Ball.vy = 0, Ball.speed = 360 \<rparr>,
                      powerup := Some \<lparr> PowerUp.x = 500, PowerUp.y = 300, PowerUp.r = 12, PowerUp.active = True \<rparr> \<rparr>) (1 / 60) (spawn_choices \<lparr> spawn_choices = (0, 0), serve_after_left_goal = (0, 1),
                  serve_after_right_goal = (0, - 1) \<rparr>) = Inr (kickoff\<lparr> ball := \<lparr> Ball.x = 506, Ball.y = 300, Ball.r = 10, Ball.vx = 1,
                                 Ball.vy = 0, Ball.speed = 360 \<rparr>,
                      powerup := Some \<lparr> PowerUp.x = 500, PowerUp.y = 300, PowerUp.r = 12, PowerUp.active = True \<rparr>, powerup_timer := 1 / 60 \<rparr>)"
    by (simp add: step_to_paddles_def step_to_walls_def update_powerup_timer_def
          update_boost_timer_def update_ball_motion_def update_wall_collision_def
          update_paddle_collision_def colliderect_def Ball_rect_def Paddle_rect_def
          Rect_right_def Rect_bottom_def py_int_def kickoff_def Config_defaults_def Let_def)
  have p: "powerup (kickoff\<lparr> ball := \<lparr> Ball.x = 506, Ball.y = 300, Ball.r = 10, Ball.vx = 1,
                                 Ball.vy = 0, Ball.speed = 360 \<rparr>,
                      powerup := Some \<lparr> PowerUp.x = 500, PowerUp.y = 300, PowerUp.r = 12, PowerUp.active = True \<rparr>, powerup_timer := 1 / 60 \<rparr>) = Some \<lparr> PowerUp.x = 500, PowerUp.y = 300, PowerUp.r = 12, PowerUp.active = True \<rparr>" by simp
  have l: "Vector2_length (6, 0) = 6" by (simp add: Vector2_length_def)
  have d: "Vector2_length (Ball.x (ball (kickoff\<lparr> ball := \<lparr> Ball.x = 506, Ball.y = 300, Ball.r = 10, Ball.vx = 1,
                                 Ball.vy = 0, Ball.speed = 360 \<rparr>,
                      powerup := Some \<lparr> PowerUp.x = 500, PowerUp.y = 300, PowerUp.r = 12, PowerUp.active = True \<rparr>, powerup_timer := 1 / 60 \<rparr>)) - PowerUp.x \<lparr> PowerUp.x = 500, PowerUp.y = 300, PowerUp.r = 12, PowerUp.active = True \<rparr>, Ball.y (ball (kickoff\<lparr> ball := \<lparr> Ball.x = 506, Ball.y = 300, Ball.r = 10, Ball.vx = 1,
                                 Ball.vy = 0, Ball.speed = 360 \<rparr>,
                      powerup := Some \<lparr> PowerUp.x = 500, PowerUp.y = 300, PowerUp.r = 12, PowerUp.active = True \<rparr>, powerup_timer := 1 / 60 \<rparr>)) - PowerUp.y \<lparr> PowerUp.x = 500, PowerUp.y = 300, PowerUp.r = 12, PowerUp.active = True \<rparr>)
             \<le> real_of_int (Ball.r (ball (kickoff\<lparr> ball := \<lparr> Ball.x = 506, Ball.y = 300, Ball.r = 10, Ball.vx = 1,
                                 Ball.vy = 0, Ball.speed = 360 \<rparr>,
                      powerup := Some \<lparr> PowerUp.x = 500, PowerUp.y = 300, PowerUp.r = 12, PowerUp.active = True \<rparr>, powerup_timer := 1 / 60 \<rparr>)) + PowerUp.r \<lparr> PowerUp.x = 500, PowerUp.y = 300, PowerUp.r = 12, PowerUp.active = True \<rparr>)"
    using l by simp
  have a: "PowerUp.active \<lparr> PowerUp.x = 500, PowerUp.y = 300, PowerUp.r = 12, PowerUp.active = True \<rparr>" by simp
  show ?thesis
    using powerup_contact_boosts [OF w s p a d] w s l
    by (simp add: kickoff_def Config_defaults_def)
qed

theorem goal_keeps_powerup_witness:
  "wf_game (kickoff\<lparr> ball := \<lparr> Ball.x = - 11, Ball.y = 270, Ball.r = 10, Ball.vx = - 1,
                                 Ball.vy = 0, Ball.speed = 360 \<rparr>,
                      powerup := Some \<lparr> PowerUp.x = 500, PowerUp.y = 300, PowerUp.r = 12, PowerUp.active = True \<rparr>, powerup_timer := 3 \<rparr>)
   \<and> step_to_paddles (kickoff\<lparr> ball := \<lparr> Ball.x = - 11, Ball.y = 270, Ball.r = 10, Ball.vx = - 1,
                                 Ball.vy = 0, Ball.speed = 360 \<rparr>,
                      powerup := Some \<lparr> PowerUp.x = 500, PowerUp.y = 300, PowerUp.r = 12, PowerUp.active = True \<rparr>, powerup_timer := 3 \<rparr>) (1 / 60) (0, 0) = Inr (kickoff\<lparr> ball := \<lparr> Ball.x = - 17, Ball.y = 270, Ball.r = 10, Ball.vx = - 1,
                                 Ball.vy = 0, Ball.speed = 360 \<rparr>,
                      powerup := Some \<lparr> PowerUp.x = 500, PowerUp.y = 300, PowerUp.r = 12, PowerUp.active = True \<rparr>, powerup_timer := 181 / 60 \<rparr>)
   \<and> Ball.x (ball (kickoff\<lparr> ball := \<lparr> Ball.x = - 17, Ball.y = 270, Ball.r = 10, Ball.vx = - 1,
                                 Ball.vy = 0, Ball.speed = 360 \<rparr>,
                      powerup := Some \<lparr> PowerUp.x = 500, PowerUp.y = 300, PowerUp.r = 12, PowerUp.active = True \<rparr>, powerup_timer := 181 / 60 \<rparr>)) + real_of_int (Ball.r (ball (kickoff\<lparr> ball := \<lparr> Ball.x = - 17, Ball.y = 270, Ball.r = 10, Ball.vx = - 1,
                                 Ball.vy = 0, Ball.speed = 360 \<rparr>,
                      powerup := Some \<lparr> PowerUp.x = 500, PowerUp.y = 300, PowerUp.r = 12, PowerUp.active = True \<rparr>, powerup_timer := 181 / 60 \<rparr>))) < 0
   \<and> (\<exists>g'. update_playing (kickoff\<lparr> ball := \<lparr> Ball.x = - 11, Ball.y = 270, Ball.r = 10, Ball.vx = - 1,
                                 Ball.vy = 0, Ball.speed = 360 \<rparr>,
                      powerup := Some \<lparr> PowerUp.x = 500, PowerUp.y = 300, PowerUp.r = 12, PowerUp.active = True \<rparr>, powerup_timer := 3 \<rparr>) (1 / 60) \<lparr> spawn_choices = (0, 0), serve_after_left_goal = (0, 1),
                  serve_after_right_goal = (0, - 1) \<rparr> = Inr g'
          \<and> powerup g' = Some \<lparr> PowerUp.x = 500, PowerUp.y = 300, PowerUp.r = 12, PowerUp.active = True \<rparr> \<and> powerup_timer g' = 3 + 1 / 60
          \<and> right_score g' = 1 \<and> left_score g' = 0)"
proof -
  have w: "wf_game (kickoff\<lparr> ball := \<lparr> Ball.x = - 11, Ball.y = 270, Ball.r = 10, Ball.vx = - 1,
                                 Ball.vy = 0, Ball.speed = 360 \<rparr>,
                      powerup := Some \<lparr> PowerUp.x = 500, PowerUp.y = 300, PowerUp.r = 12, PowerUp.active = True \<rparr>, powerup_timer := 3 \<rparr>)" by (simp add: wf_game_def kickoff_def)
  have s: "step_to_paddles (kickoff\<lparr> ball := \<lparr> Ball.x = - 11, Ball.y = 270, Ball.r = 10, Ball.vx = - 1,
                                 Ball.vy = 0, Ball.speed = 360 \<rparr>,
                      powerup := Some \<lparr> PowerUp.x = 500, PowerUp.y = 300, PowerUp.r = 12, PowerUp.active = True \<rparr>, powerup_timer := 3 \<rparr>) (1 / 60) (spawn_choices \<lparr> spawn_choices = (0, 0), serve_after_left_goal = (0, 1),
                  serve_after_right_goal = (0, - 1) \<rparr>) = Inr (kickoff\<lparr> ball := \<lparr> Ball.x = - 17, Ball.y = 270, Ball.r = 10, Ball.vx = - 1,
                                 Ball.vy = 0, Ball.speed = 360 \<rparr>,
                      powerup := Some \<lparr> PowerUp.x = 500, PowerUp.y = 300, PowerUp.r = 12, PowerUp.active = True \<rparr>, powerup_timer := 181 / 60 \<rparr>)"
    by (simp add: step_to_paddles_def step_to_walls_def update_powerup_timer_def
          update_boost_timer_def update_ball_motion_def update_wall_collision_def
          update_paddle_collision_def colliderect_def Ball_rect_def Paddle_rect_def
          Rect_right_def Rect_bottom_def py_int_def kickoff_def Config_defaults_def Let_def)
  have x: "Ball.x (ball (kickoff\<lparr> ball := \<lparr> Ball.x = - 17, Ball.y = 270, Ball.r = 10, Ball.vx = - 1,
                                 Ball.vy = 0, Ball.speed = 360 \<rparr>,
                      powerup := Some \<lparr> PowerUp.x = 500, PowerUp.y = 300, PowerUp.r = 12, PowerUp.active = True \<rparr>, powerup_timer := 181 / 60 \<rparr>)) + real_of_int (Ball.r (ball (kickoff\<lparr> ball := \<lparr> Ball.x = - 17, Ball.y = 270, Ball.r = 10, Ball.vx = - 1,
                                 Ball.vy = 0, Ball.speed = 360 \<rparr>,
                      powerup := Some \<lparr> PowerUp.x = 500, PowerUp.y = 300, PowerUp.r = 12, PowerUp.active = True \<rparr>, powerup_timer := 181 / 60 \<rparr>))) < 0
         \<or> Ball.x (ball (kickoff\<lparr> ball := \<lparr> Ball.x = - 17, Ball.y = 270, Ball.r = 10, Ball.vx = - 1,
                                 Ball.vy = 0, Ball.speed = 360 \<rparr>,
                      powerup := Some \<lparr> PowerUp.x = 500, PowerUp.y = 300, PowerUp.r = 12, PowerUp.active = True \<rparr>, powerup_timer := 181 / 60 \<rparr>)) - real_of_int (Ball.r (ball (kickoff\<lparr> ball := \<lparr> Ball.x = - 17, Ball.y = 270, Ball.r = 10, Ball.vx = - 1,
                                 Ball.vy = 0, Ball.speed = 360 \<rparr>,
                      powerup := Some \<lparr> PowerUp.x = 500, PowerUp.y = 300, PowerUp.r = 12, PowerUp.active = True \<rparr>, powerup_timer := 181 / 60 \<rparr>))) > real_of_int (width (cfg (kickoff\<lparr> ball := \<lparr> Ball.x = - 17, Ball.y = 270, Ball.r = 10, Ball.vx = - 1,
                                 Ball.vy = 0, Ball.speed = 360 \<rparr>,
                      powerup := Some \<lparr> PowerUp.x = 500, PowerUp.y = 300, PowerUp.r = 12, PowerUp.active = True \<rparr>, powerup_timer := 181 / 60 \<rparr>)))"
    by simp
  show ?thesis
    using goal_keeps_powerup [OF w s x] w s
    by (auto simp add: kickoff_def Config_defaults_def)
qed

section \<open>Speed along a rally\<close>

lemma update_goal_same_scores:
  assumes "update_goal g dl dr = Inr g'"
    and "left_score g' = left_score g" and "right_score g' = right_score g"
  shows "g' = g"
  using assms unfolding update_goal_Inr
  by (auto simp add: Let_def split: if_splits)

lemma min_cap_absorb:
  fixes M a c :: real
  assumes "0 \<le> M" and "1 \<le> c"
  shows "min M (min M a * c) = min M (a * c)"
proof (cases "a \<le> M")
  case True
  then show ?thesis by simp
next
  case False
  then have a: "M < a" by simp
  have "M * 1 \<le> M * c" using assms by (intro mult_left_mono) simp_all
  moreover have "a * 1 \<le> a * c" using assms a by (intro mult_left_mono) simp_all
  ultimately show ?thesis using a by simp
qed

text \<open>
  A PLAYING frame that changes no score: the speed grows by the factor 1.03, capped, once
  per paddle test that succeeds.
\<close>

lemma play_frame_speed:
  assumes "wf_game g"
  shows "\<exists>g'. play_frame g f = Inr g' \<and> wf_game g'
     \<and> (left_score g' = left_score g \<and> right_score g' = right_score g \<longrightarrow>
          Ball.speed (ball g') = min 860 (Ball.speed (ball g) * 1.03 ^ paddle_contacts g f))"
proof -
  let ?h = "handle_input g (frame_keys f) (frame_dt f)"
  let ?dt = "frame_dt f"
  let ?rnd = "frame_rnd f"
  have wh: "wf_game ?h" using assms by (rule wf_handle_input)
  obtain g4 where g4: "step_to_walls ?h ?dt (spawn_choices ?rnd) = Inr g4" "wf_game g4"
      "left_score g4 = left_score ?h" "right_score g4 = right_score ?h"
      "Ball.speed (ball g4) = Ball.speed (ball ?h)"
    using wf_step_to_walls [OF wh] by blast
  obtain g5 where g5: "update_paddle_collision g4 = Inr g5" "wf_game g5"
      "g5 = g4\<lparr> ball := ball g5 \<rparr>"
      "Ball.speed (ball g5)
         = (if hits_left g4 \<or> hits_right g4 then min 860 (Ball.speed (ball g4) * 1.03)
            else Ball.speed (ball g4))"
    using wf_update_paddle_collision [OF g4(2)] by blast
  have excl: "\<not> (hits_left g4 \<and> hits_right g4)"
    by (auto simp add: hits_left_def hits_right_def)
  have pc: "paddle_contacts g f = (if hits_left g4 \<or> hits_right g4 then 1 else 0)"
    using excl by (auto simp add: paddle_contacts_def g4(1))
  note d = wf_gameD [OF assms]
  have sp5: "Ball.speed (ball g5) = min 860 (Ball.speed (ball g) * 1.03 ^ paddle_contacts g f)"
    using g5(4) g4(5) d(10) pc by simp
  have sc5: "left_score g5 = left_score g" "right_score g5 = right_score g"
    using g4(3,4) by (subst g5(3), simp)+
  let ?g6 = "update_powerup_contact g5"
  have w6: "wf_game ?g6" using g5(2) by (rule wf_update_powerup_contact)
  obtain g7 where g7: "update_goal ?g6 (serve_after_left_goal ?rnd) (serve_after_right_goal ?rnd)
                         = Inr g7" "wf_game g7"
    using wf_update_goal [OF w6] by blast
  have pf: "play_frame g f = Inr (update_win g7)"
    by (simp add: play_frame_def update_playing_alt step_to_paddles_def g4(1) g5(1) g7(1))
  have "Ball.speed (ball (update_win g7))
          = min 860 (Ball.speed (ball g) * 1.03 ^ paddle_contacts g f)"
    if "left_score (update_win g7) = left_score g" "right_score (update_win g7) = right_score g"
  proof -
    have "g7 = ?g6"
      using that sc5 by (intro update_goal_same_scores [OF g7(1)]) simp_all
    then show ?thesis using sp5 by simp
  qed
  then show ?thesis
    using pf wf_update_win [OF g7(2)] by simp
qed

text \<open>
  C4. From any state the game can be in, along PLAYING frames in which no goal is scored:
  the frames return, and with \<open>N\<close> the number of paddle contacts of these frames the ball's
  speed ends at \<open>min(ball_speed_max, speed * 1.03^N)\<close>, not below the speed before and not
  above \<open>ball_speed_max\<close>; from the base speed that is \<open>min(860, 360 * 1.03^N)\<close>.
\<close>

theorem rally_speed:
  assumes "wf_game g" and "no_goal g fs"
  shows "\<exists>g'. rally g fs = Inr g'
     \<and> Ball.speed (ball g')
         = min (ball_speed_max (cfg g)) (Ball.speed (ball g) * 1.03 ^ rally_contacts g fs)
     \<and> Ball.speed (ball g) \<le> Ball.speed (ball g')
     \<and> Ball.speed (ball g') \<le> ball_speed_max (cfg g)
     \<and> (Ball.speed (ball g) = ball_speed (cfg g) \<longrightarrow>
          Ball.speed (ball g') = min 860 (360 * 1.03 ^ rally_contacts g fs))"
  using assms
proof (induction fs arbitrary: g)
  case Nil
  note d = wf_gameD [OF Nil(1)]
  show ?case using d by (simp add: Config_defaults_def)
next
  case (Cons f fs)
  note d = wf_gameD [OF Cons.prems(1)]
  obtain g1 where g1: "play_frame g f = Inr g1" "wf_game g1"
      "left_score g1 = left_score g \<and> right_score g1 = right_score g \<longrightarrow>
          Ball.speed (ball g1) = min 860 (Ball.speed (ball g) * 1.03 ^ paddle_contacts g f)"
    using play_frame_speed [OF Cons.prems(1)] by blast
  have ng: "left_score g1 = left_score g" "right_score g1 = right_score g" "no_goal g1 fs"
    using Cons.prems(2) g1(1) by simp_all
  have s1: "Ball.speed (ball g1) = min 860 (Ball.speed (ball g) * 1.03 ^ paddle_contacts g f)"
    using g1(3) ng by simp
  note d1 = wf_gameD [OF g1(2)]
  obtain g' where g': "rally g1 fs = Inr g'"
      "Ball.speed (ball g')
         = min (ball_speed_max (cfg g1)) (Ball.speed (ball g1) * 1.03 ^ rally_contacts g1 fs)"
      "Ball.speed (ball g1) \<le> Ball.speed (ball g')"
    using Cons.IH [OF g1(2) ng(3)] by blast
  have m: "ball_speed_max (cfg g1) = 860" "ball_speed_max (cfg g) = 860" "ball_speed (cfg g) = 360"
    using d(1) d1(1) by (simp_all add: Config_defaults_def)
  have p1: "(1::real) \<le> 1.03 ^ rally_contacts g1 fs" by (rule one_le_power) simp
  have p2: "(1::real) \<le> 1.03 ^ paddle_contacts g f" by (rule one_le_power) simp
  have "Ball.speed (ball g')
         = min 860 (min 860 (Ball.speed (ball g) * 1.03 ^ paddle_contacts g f)
                     * 1.03 ^ rally_contacts g1 fs)"
    using g'(2) s1 m by simp
  also have "\<dots> = min 860 (Ball.speed (ball g) * 1.03 ^ paddle_contacts g f
                                * 1.03 ^ rally_contacts g1 fs)"
    by (rule min_cap_absorb) (use p1 in simp_all)
  also have "\<dots> = min 860 (Ball.speed (ball g) * 1.03 ^ rally_contacts g (f # fs))"
    using g1(1) by (simp add: power_add mult.assoc)
  finally have sp: "Ball.speed (ball g')
         = min 860 (Ball.speed (ball g) * 1.03 ^ rally_contacts g (f # fs))" .
  have "Ball.speed (ball g) * 1 \<le> Ball.speed (ball g) * 1.03 ^ paddle_contacts g f"
    using p2 d(9) by (intro mult_left_mono) simp_all
  then have "Ball.speed (ball g) \<le> Ball.speed (ball g1)"
    using s1 d(10) by simp
  then have mono: "Ball.speed (ball g) \<le> Ball.speed (ball g')" using g'(3) by simp
  show ?case
    using g1(1) g'(1) sp mono m by simp
qed


theorem rally_speed_witness:
  "wf_game (kickoff\<lparr> ball := \<lparr> Ball.x = 50, Ball.y = 270, Ball.r = 10, Ball.vx = - 1,
                                 Ball.vy = 0, Ball.speed = 360 \<rparr> \<rparr>)
   \<and> no_goal (kickoff\<lparr> ball := \<lparr> Ball.x = 50, Ball.y = 270, Ball.r = 10, Ball.vx = - 1,
                                 Ball.vy = 0, Ball.speed = 360 \<rparr> \<rparr>) [\<lparr> frame_dt = 1 / 60, frame_events = [],
       frame_keys = \<lparr> K_w = False, K_s = False, K_RSHIFT = False, K_LSHIFT = False,
                      K_UP = False, K_DOWN = False \<rparr>,
       frame_restart_draw = (0, 1),
       frame_rnd = \<lparr> spawn_choices = (0, 0), serve_after_left_goal = (0, 1),
                     serve_after_right_goal = (0, - 1) \<rparr> \<rparr>]
   \<and> rally_contacts (kickoff\<lparr> ball := \<lparr> Ball.x = 50, Ball.y = 270, Ball.r = 10, Ball.vx = - 1,
                                 Ball.vy = 0, Ball.speed = 360 \<rparr> \<rparr>) [\<lparr> frame_dt = 1 / 60, frame_events = [],
       frame_keys = \<lparr> K_w = False, K_s = False, K_RSHIFT = False, K_LSHIFT = False,
                      K_UP = False, K_DOWN = False \<rparr>,
       frame_restart_draw = (0, 1),
       frame_rnd = \<lparr> spawn_choices = (0, 0), serve_after_left_goal = (0, 1),
                     serve_after_right_goal = (0, - 1) \<rparr> \<rparr>] = 1
   \<and> (\<exists>g'. rally (kickoff\<lparr> ball := \<lparr> Ball.x = 50, Ball.y = 270, Ball.r = 10, Ball.vx = - 1,
                                 Ball.vy = 0, Ball.speed = 360 \<rparr> \<rparr>) [\<lparr> frame_dt = 1 / 60, frame_events = [],
       frame_keys = \<lparr> K_w = False, K_s = False, K_RSHIFT = False, K_LSHIFT = False,
                      K_UP = False, K_DOWN = False \<rparr>,
       frame_restart_draw = (0, 1),
       frame_rnd = \<lparr> spawn_choices = (0, 0), serve_after_left_goal = (0, 1),
                     serve_after_right_goal = (0, - 1) \<rparr> \<rparr>] = Inr g' \<and> Ball.speed (ball g') = 370.8)"
proof -
  let ?f = "\<lparr> frame_dt = 1 / 60, frame_events = [],
       frame_keys = \<lparr> K_w = False, K_s = False, K_RSHIFT = False, K_LSHIFT = False,
                      K_UP = False, K_DOWN = False \<rparr>,
       frame_restart_draw = (0, 1),
       frame_rnd = \<lparr> spawn_choices = (0, 0), serve_after_left_goal = (0, 1),
                     serve_after_right_goal = (0, - 1) \<rparr> \<rparr>"
  have w: "wf_game (kickoff\<lparr> ball := \<lparr> Ball.x = 50, Ball.y = 270, Ball.r = 10, Ball.vx = - 1,
                                 Ball.vy = 0, Ball.speed = 360 \<rparr> \<rparr>)" by (simp add: wf_game_def kickoff_def)
  have hi: "handle_input (kickoff\<lparr> ball := \<lparr> Ball.x = 50, Ball.y = 270, Ball.r = 10, Ball.vx = - 1,
                                 Ball.vy = 0, Ball.speed = 360 \<rparr> \<rparr>)
        \<lparr> K_w = False, K_s = False, K_RSHIFT = False, K_LSHIFT = False,
                      K_UP = False, K_DOWN = False \<rparr> (1 / 60)
      = (kickoff\<lparr> ball := \<lparr> Ball.x = 50, Ball.y = 270, Ball.r = 10, Ball.vx = - 1,
                                 Ball.vy = 0, Ball.speed = 360 \<rparr> \<rparr>)"
    by (simp add: handle_input_def ai_move_def center_y_def clamp_def kickoff_def
          Config_defaults_def Let_def)
  have sw: "step_to_walls (kickoff\<lparr> ball := \<lparr> Ball.x = 50, Ball.y = 270, Ball.r = 10, Ball.vx = - 1,
                                 Ball.vy = 0, Ball.speed = 360 \<rparr> \<rparr>) (1 / 60) (0, 0) = Inr (kickoff\<lparr> ball := \<lparr> Ball.x = 44, Ball.y = 270, Ball.r = 10, Ball.vx = - 1,
                                 Ball.vy = 0, Ball.speed = 360 \<rparr>,
                      powerup_timer := 1 / 60 \<rparr>)"
    by (simp add: step_to_walls_def update_powerup_timer_def update_boost_timer_def
          update_ball_motion_def update_wall_collision_def kickoff_def Config_defaults_def Let_def)
  have hl: "hits_left (kickoff\<lparr> ball := \<lparr> Ball.x = 44, Ball.y = 270, Ball.r = 10, Ball.vx = - 1,
                                 Ball.vy = 0, Ball.speed = 360 \<rparr>,
                      powerup_timer := 1 / 60 \<rparr>)"
    by (simp add: hits_left_def colliderect_def Ball_rect_def Paddle_rect_def Rect_right_def
          Rect_bottom_def py_int_def kickoff_def)
  have hr: "\<not> hits_right (kickoff\<lparr> ball := \<lparr> Ball.x = 44, Ball.y = 270, Ball.r = 10, Ball.vx = - 1,
                                 Ball.vy = 0, Ball.speed = 360 \<rparr>,
                      powerup_timer := 1 / 60 \<rparr>)" by (simp add: hits_right_def)
  have pc: "paddle_contacts (kickoff\<lparr> ball := \<lparr> Ball.x = 50, Ball.y = 270, Ball.r = 10, Ball.vx = - 1,
                                 Ball.vy = 0, Ball.speed = 360 \<rparr> \<rparr>) ?f = 1"
    using hl hr by (simp add: paddle_contacts_def hi sw)
  have w4: "wf_game (kickoff\<lparr> ball := \<lparr> Ball.x = 44, Ball.y = 270, Ball.r = 10, Ball.vx = - 1,
                                 Ball.vy = 0, Ball.speed = 360 \<rparr>,
                      powerup_timer := 1 / 60 \<rparr>)" by (simp add: wf_game_def kickoff_def)
  obtain g5 where g5: "update_paddle_collision (kickoff\<lparr> ball := \<lparr> Ball.x = 44, Ball.y = 270, Ball.r = 10, Ball.vx = - 1,
                                 Ball.vy = 0, Ball.speed = 360 \<rparr>,
                      powerup_timer := 1 / 60 \<rparr>) = Inr g5" "g5 = (kickoff\<lparr> ball := \<lparr> Ball.x = 44, Ball.y = 270, Ball.r = 10, Ball.vx = - 1,
                                 Ball.vy = 0, Ball.speed = 360 \<rparr>,
                      powerup_timer := 1 / 60 \<rparr>)\<lparr> ball := ball g5 \<rparr>"
      "Ball.x (ball g5) = 52" "wf_game g5"
    using wf_update_paddle_collision [OF w4] hl by blast
  have r5: "Ball.r (ball g5) = 10" using wf_gameD(8) [OF g5(4)] .
  have nc: "update_powerup_contact g5 = g5"
    by (subst (1 2) g5(2)) (simp add: update_powerup_contact_def kickoff_def)
  have sc: "left_score g5 = 0" "right_score g5 = 0" "cfg g5 = Config_defaults"
    by (subst g5(2), simp add: kickoff_def)+
  have pf: "play_frame (kickoff\<lparr> ball := \<lparr> Ball.x = 50, Ball.y = 270, Ball.r = 10, Ball.vx = - 1,
                                 Ball.vy = 0, Ball.speed = 360 \<rparr> \<rparr>) ?f = Inr (update_win g5)"
    using g5(3) sc(3) r5
    by (simp add: play_frame_def hi update_playing_alt step_to_paddles_def sw g5(1) nc
          update_goal_Inr Let_def Config_defaults_def)
  have ng: "no_goal (kickoff\<lparr> ball := \<lparr> Ball.x = 50, Ball.y = 270, Ball.r = 10, Ball.vx = - 1,
                                 Ball.vy = 0, Ball.speed = 360 \<rparr> \<rparr>) [?f]"
    unfolding no_goal.simps pf using sc by (simp add: kickoff_def)
  have rc: "rally_contacts (kickoff\<lparr> ball := \<lparr> Ball.x = 50, Ball.y = 270, Ball.r = 10, Ball.vx = - 1,
                                 Ball.vy = 0, Ball.speed = 360 \<rparr> \<rparr>) [?f] = 1"
    unfolding rally_contacts.simps pf using pc by simp
  show ?thesis
    using rally_speed [OF w ng] w ng rc
    by (auto simp add: kickoff_def Config_defaults_def)
qed

section \<open>Winning and the frozen game\<close>

lemma update_playing_win:
  assumes "update_playing g dt rnd = Inr g'"
    and "score_to_win (cfg g') \<le> left_score g' \<or> score_to_win (cfg g') \<le> right_score g'"
  shows "state g' = GAMEOVER"
proof -
  from assms(1) obtain g7 where "g' = update_win g7"
    by (auto simp add: update_playing_def bind_err_eq_Inr)
  then show ?thesis using assms(2) by (auto simp add: update_win_def split: if_splits)
qed

lemma handle_events_gameover:
  "state g = GAMEOVER \<Longrightarrow> KEYDOWN K_r \<notin> set es \<Longrightarrow> handle_events g es d = Running g'
   \<Longrightarrow> g' = g"
proof (induction es)
  case Nil
  then show ?case by simp
next
  case (Cons e es)
  show ?case
  proof (cases e)
    case QUIT
    then show ?thesis using Cons.prems by simp
  next
    case (KEYDOWN k)
    then have "k \<noteq> K_r" using Cons.prems(2) by auto
    then show ?thesis using Cons KEYDOWN by (simp split: if_splits)
  next
    case OTHER_EVENT
    then show ?thesis using Cons by simp
  qed
qed

lemma run_frame_gameover:
  assumes "state g = GAMEOVER" and "KEYDOWN K_r \<notin> set (frame_events f)"
    and "run_frame g f = Running g'"
  shows "g' = g"
proof -
  from assms(3) obtain g1 where g1: "handle_events g (frame_events f) (frame_restart_draw f) = Running g1"
    by (auto simp add: run_frame_def split: Outcome.splits)
  have "g1 = g" using handle_events_gameover [OF assms(1,2) g1] .
  then show ?thesis using assms(1,3) g1 by (simp add: run_frame_def)
qed

lemma run_gameover:
  "state g = GAMEOVER \<Longrightarrow> \<forall>f \<in> set fs. KEYDOWN K_r \<notin> set (frame_events f)
   \<Longrightarrow> run g fs = Running g' \<Longrightarrow> g' = g"
proof (induction fs)
  case Nil
  then show ?case by simp
next
  case (Cons f fs)
  from Cons.prems(3) obtain g1 where g1: "run_frame g f = Running g1" "run g1 fs = Running g'"
    by (auto split: Outcome.splits)
  have "g1 = g" using run_frame_gameover [OF Cons.prems(1) _ g1(1)] Cons.prems(2) by simp
  then show ?case using Cons g1 by simp
qed

text \<open>
  C8. In a state the game can be in, a simulation step returns, the win threshold is 7, and
  if a score is at least 7 after the step the state is GAMEOVER. From GAMEOVER, over any
  frames whose events hold no press of R (the restart), a run that has not quit ends in
  the very same game: scores and state included. For a frame,
  if the state after its events is not PLAYING, the frame ends with that state untouched:
  neither \<open>handle_input\<close> nor \<open>update_playing\<close> runs.
\<close>

theorem gameover_freezes_scores:
  assumes "wf_game g"
  shows "(\<exists>g'. update_playing g dt rnd = Inr g' \<and> score_to_win (cfg g') = 7
            \<and> (7 \<le> left_score g' \<or> 7 \<le> right_score g' \<longrightarrow> state g' = GAMEOVER))
       \<and> (state g = GAMEOVER \<and> (\<forall>f \<in> set fs. KEYDOWN K_r \<notin> set (frame_events f))
            \<and> run g fs = Running g2 \<longrightarrow>
            g2 = g \<and> left_score g2 = left_score g \<and> right_score g2 = right_score g
            \<and> state g2 = GAMEOVER)
       \<and> (handle_events g (frame_events f) (frame_restart_draw f) = Running g1
            \<and> state g1 \<noteq> PLAYING \<longrightarrow> run_frame g f = Running g1)"
proof -
  obtain g' where g': "update_playing g dt rnd = Inr g'" "wf_game g'"
    using wf_update_playing [OF assms] by blast
  have t: "score_to_win (cfg g') = 7"
    using wf_gameD(1) [OF g'(2)] by (simp add: Config_defaults_def)
  have a: "7 \<le> left_score g' \<or> 7 \<le> right_score g' \<longrightarrow> state g' = GAMEOVER"
    using update_playing_win [OF g'(1)] t by simp
  have b: "state g = GAMEOVER \<and> (\<forall>f \<in> set fs. KEYDOWN K_r \<notin> set (frame_events f))
            \<and> run g fs = Running g2 \<longrightarrow>
            g2 = g \<and> left_score g2 = left_score g \<and> right_score g2 = right_score g
            \<and> state g2 = GAMEOVER"
    using run_gameover [of g fs g2] by auto
  have c: "handle_events g (frame_events f) (frame_restart_draw f) = Running g1
            \<and> state g1 \<noteq> PLAYING \<longrightarrow> run_frame g f = Running g1"
    by (simp add: run_frame_def)
  show ?thesis using g'(1) t a b c by blast
qed


theorem gameover_freezes_scores_witness:
  "wf_game (kickoff\<lparr> left_score := 6,
                      ball := \<lparr> Ball.x = 911, Ball.y = 270, Ball.r = 10, Ball.vx = 1,
                                 Ball.vy = 0, Ball.speed = 360 \<rparr> \<rparr>)
   \<and> (\<exists>g'. update_playing (kickoff\<lparr> left_score := 6,
                      ball := \<lparr> Ball.x = 911, Ball.y = 270, Ball.r = 10, Ball.vx = 1,
                                 Ball.vy = 0, Ball.speed = 360 \<rparr> \<rparr>) (1 / 60) \<lparr> spawn_choices = (0, 0), serve_after_left_goal = (0, 1),
                  serve_after_right_goal = (0, - 1) \<rparr> = Inr g'
          \<and> left_score g' = 7 \<and> state g' = GAMEOVER)
   \<and> wf_game (kickoff\<lparr> state := GAMEOVER, left_score := 7 \<rparr>)
   \<and> state (kickoff\<lparr> state := GAMEOVER, left_score := 7 \<rparr>) = GAMEOVER
   \<and> KEYDOWN K_r \<notin> set [KEYDOWN K_p, OTHER_EVENT]
   \<and> KEYDOWN K_r \<notin> set [KEYDOWN K_RETURN]
   \<and> run (kickoff\<lparr> state := GAMEOVER, left_score := 7 \<rparr>) [\<lparr> frame_dt = 1 / 60, frame_events = [KEYDOWN K_p, OTHER_EVENT],
        frame_keys = \<lparr> K_w = True, K_s = False, K_RSHIFT = False, K_LSHIFT = False,
                       K_UP = False, K_DOWN = False \<rparr>,
        frame_restart_draw = (0, 1), frame_rnd = \<lparr> spawn_choices = (0, 0), serve_after_left_goal = (0, 1),
                  serve_after_right_goal = (0, - 1) \<rparr> \<rparr>, \<lparr> frame_dt = 1 / 60, frame_events = [KEYDOWN K_RETURN],
        frame_keys = \<lparr> K_w = True, K_s = False, K_RSHIFT = False, K_LSHIFT = False,
                       K_UP = False, K_DOWN = False \<rparr>,
        frame_restart_draw = (0, 1), frame_rnd = \<lparr> spawn_choices = (0, 0), serve_after_left_goal = (0, 1),
                  serve_after_right_goal = (0, - 1) \<rparr> \<rparr>] = Running (kickoff\<lparr> state := GAMEOVER, left_score := 7 \<rparr>)
   \<and> left_score (kickoff\<lparr> state := GAMEOVER, left_score := 7 \<rparr>) = 7"
proof -
  have w6: "wf_game (kickoff\<lparr> left_score := 6,
                      ball := \<lparr> Ball.x = 911, Ball.y = 270, Ball.r = 10, Ball.vx = 1,
                                 Ball.vy = 0, Ball.speed = 360 \<rparr> \<rparr>)" by (simp add: wf_game_def kickoff_def)
  have w7: "wf_game (kickoff\<lparr> state := GAMEOVER, left_score := 7 \<rparr>)" by (simp add: wf_game_def kickoff_def)
  have sp: "step_to_paddles (kickoff\<lparr> left_score := 6,
                      ball := \<lparr> Ball.x = 911, Ball.y = 270, Ball.r = 10, Ball.vx = 1,
                                 Ball.vy = 0, Ball.speed = 360 \<rparr> \<rparr>) (1 / 60) (0, 0) = Inr (kickoff\<lparr> left_score := 6,
                      ball := \<lparr> Ball.x = 917, Ball.y = 270, Ball.r = 10, Ball.vx = 1,
                                 Ball.vy = 0, Ball.speed = 360 \<rparr>,
                      powerup_timer := 1 / 60 \<rparr>)"
    by (simp add: step_to_paddles_def step_to_walls_def update_powerup_timer_def
          update_boost_timer_def update_ball_motion_def update_wall_collision_def
          update_paddle_collision_def colliderect_def Ball_rect_def Paddle_rect_def
          Rect_right_def Rect_bottom_def py_int_def kickoff_def Config_defaults_def Let_def)
  have s6: "\<exists>g'. update_playing (kickoff\<lparr> left_score := 6,
                      ball := \<lparr> Ball.x = 911, Ball.y = 270, Ball.r = 10, Ball.vx = 1,
                                 Ball.vy = 0, Ball.speed = 360 \<rparr> \<rparr>) (1 / 60) \<lparr> spawn_choices = (0, 0), serve_after_left_goal = (0, 1),
                  serve_after_right_goal = (0, - 1) \<rparr> = Inr g' \<and> left_score g' = 7"
  proof -
    have "update_playing (kickoff\<lparr> left_score := 6,
                      ball := \<lparr> Ball.x = 911, Ball.y = 270, Ball.r = 10, Ball.vx = 1,
                                 Ball.vy = 0, Ball.speed = 360 \<rparr> \<rparr>) (1 / 60) \<lparr> spawn_choices = (0, 0), serve_after_left_goal = (0, 1),
                  serve_after_right_goal = (0, - 1) \<rparr> =
        bind_err (step_to_paddles (kickoff\<lparr> left_score := 6,
                      ball := \<lparr> Ball.x = 911, Ball.y = 270, Ball.r = 10, Ball.vx = 1,
                                 Ball.vy = 0, Ball.speed = 360 \<rparr> \<rparr>) (1 / 60) (0, 0)) (\<lambda>g.
        bind_err (update_goal (update_powerup_contact g) (0, 1) (0, - 1)) (\<lambda>g.
        Inr (update_win g)))"
      by (simp add: update_playing_alt)
    then show ?thesis
      unfolding sp
      by (simp add: update_powerup_contact_def update_goal_Inr Let_def kickoff_def
            Config_defaults_def)
  qed
  have a: "\<exists>g'. update_playing (kickoff\<lparr> left_score := 6,
                      ball := \<lparr> Ball.x = 911, Ball.y = 270, Ball.r = 10, Ball.vx = 1,
                                 Ball.vy = 0, Ball.speed = 360 \<rparr> \<rparr>) (1 / 60) \<lparr> spawn_choices = (0, 0), serve_after_left_goal = (0, 1),
                  serve_after_right_goal = (0, - 1) \<rparr> = Inr g'
          \<and> left_score g' = 7 \<and> state g' = GAMEOVER"
    using gameover_freezes_scores [OF w6, of "1 / 60" "\<lparr> spawn_choices = (0, 0), serve_after_left_goal = (0, 1),
                  serve_after_right_goal = (0, - 1) \<rparr>"] s6 by auto
  have r: "run (kickoff\<lparr> state := GAMEOVER, left_score := 7 \<rparr>) [\<lparr> frame_dt = 1 / 60, frame_events = [KEYDOWN K_p, OTHER_EVENT],
        frame_keys = \<lparr> K_w = True, K_s = False, K_RSHIFT = False, K_LSHIFT = False,
                       K_UP = False, K_DOWN = False \<rparr>,
        frame_restart_draw = (0, 1), frame_rnd = \<lparr> spawn_choices = (0, 0), serve_after_left_goal = (0, 1),
                  serve_after_right_goal = (0, - 1) \<rparr> \<rparr>, \<lparr> frame_dt = 1 / 60, frame_events = [KEYDOWN K_RETURN],
        frame_keys = \<lparr> K_w = True, K_s = False, K_RSHIFT = False, K_LSHIFT = False,
                       K_UP = False, K_DOWN = False \<rparr>,
        frame_restart_draw = (0, 1), frame_rnd = \<lparr> spawn_choices = (0, 0), serve_after_left_goal = (0, 1),
                  serve_after_right_goal = (0, - 1) \<rparr> \<rparr>] = Running (kickoff\<lparr> state := GAMEOVER, left_score := 7 \<rparr>)"
    by (simp add: run_frame_def kickoff_def)
  have b: "left_score (kickoff\<lparr> state := GAMEOVER, left_score := 7 \<rparr>) = 7 \<and> state (kickoff\<lparr> state := GAMEOVER, left_score := 7 \<rparr>) = GAMEOVER"
    using gameover_freezes_scores [OF w7, of _ _ "[\<lparr> frame_dt = 1 / 60, frame_events = [KEYDOWN K_p, OTHER_EVENT],
        frame_keys = \<lparr> K_w = True, K_s = False, K_RSHIFT = False, K_LSHIFT = False,
                       K_UP = False, K_DOWN = False \<rparr>,
        frame_restart_draw = (0, 1), frame_rnd = \<lparr> spawn_choices = (0, 0), serve_after_left_goal = (0, 1),
                  serve_after_right_goal = (0, - 1) \<rparr> \<rparr>, \<lparr> frame_dt = 1 / 60, frame_events = [KEYDOWN K_RETURN],
        frame_keys = \<lparr> K_w = True, K_s = False, K_RSHIFT = False, K_LSHIFT = False,
                       K_UP = False, K_DOWN = False \<rparr>,
        frame_restart_draw = (0, 1), frame_rnd = \<lparr> spawn_choices = (0, 0), serve_after_left_goal = (0, 1),
                  serve_after_right_goal = (0, - 1) \<rparr> \<rparr>]" "(kickoff\<lparr> state := GAMEOVER, left_score := 7 \<rparr>)"] r
    by (simp add: kickoff_def)
  show ?thesis using w6 w7 a r b by simp
qed

section \<open>The contact test of the paddle block\<close>

lemma update_paddle_collision_changes:
  assumes "wf_game g"
  shows "\<exists>g'. update_paddle_collision g = Inr g'
           \<and> (ball g' \<noteq> ball g \<longleftrightarrow> hits_left g \<or> hits_right g)"
proof -
  have sgn: "Ball.vx b' \<noteq> Ball.vx b \<Longrightarrow> b' \<noteq> b" for b b' :: Ball by auto
  consider (l) "hits_left g" | (r) "\<not> hits_left g" "hits_right g"
    | (n) "\<not> hits_left g" "\<not> hits_right g"
    by blast
  then show ?thesis
  proof cases
    case l
    then have neg: "Ball.vx (ball g) < 0" by (simp add: hits_left_def)
    let ?o = "clamp ((Ball.y (ball g) - center_y (left g))
                      / (real_of_int (Paddle.h (left g)) / 2)) (- 1) 1 * 0.95"
    have ab: "0 < \<bar>Ball.vx (ball g)\<bar>" using neg by simp
    have "0 < Vector2_length (\<bar>Ball.vx (ball g)\<bar>, ?o)"
      using neg by (intro Vector2_length_pos) simp
    with ab have "0 < \<bar>Ball.vx (ball g)\<bar> / Vector2_length (\<bar>Ball.vx (ball g)\<bar>, ?o)"
      by (rule divide_pos_pos)
    then have "\<bar>Ball.vx (ball g)\<bar> / Vector2_length (\<bar>Ball.vx (ball g)\<bar>, ?o) \<noteq> Ball.vx (ball g)"
      using neg by linarith
    then show ?thesis
      using l unfolding update_paddle_collision_wf [OF assms] hits_left_def
      by (auto intro!: sgn)
  next
    case r
    then have pos: "0 < Ball.vx (ball g)" by (simp add: hits_right_def)
    let ?o = "clamp ((Ball.y (ball g) - center_y (right g))
                      / (real_of_int (Paddle.h (right g)) / 2)) (- 1) 1 * 0.95"
    have ab: "0 < \<bar>Ball.vx (ball g)\<bar>" using pos by simp
    have "0 < Vector2_length (\<bar>Ball.vx (ball g)\<bar>, ?o)"
      using pos by (intro Vector2_length_pos) simp
    with ab have "0 < \<bar>Ball.vx (ball g)\<bar> / Vector2_length (\<bar>Ball.vx (ball g)\<bar>, ?o)"
      by (rule divide_pos_pos)
    then have "- (\<bar>Ball.vx (ball g)\<bar> / Vector2_length (\<bar>Ball.vx (ball g)\<bar>, ?o)) \<noteq> Ball.vx (ball g)"
      using pos by linarith
    then show ?thesis
      using r unfolding update_paddle_collision_wf [OF assms] hits_left_def hits_right_def
      by (auto intro!: sgn)
  next
    case n
    then show ?thesis
      unfolding update_paddle_collision_wf [OF assms] hits_left_def hits_right_def
      by auto
  qed
qed

lemma colliderect_configured:
  assumes "Paddle.w p = 14" "Paddle.h p = 110" "Ball.r b = 10"
  shows "colliderect (Ball_rect b) (Paddle_rect p) \<longleftrightarrow>
           py_int (Ball.x b - 10) < py_int (Paddle.x p) + 14
         \<and> py_int (Paddle.x p) < py_int (Ball.x b - 10) + 20
         \<and> py_int (Ball.y b - 10) < py_int (Paddle.y p) + 110
         \<and> py_int (Paddle.y p) < py_int (Ball.y b - 10) + 20"
  using assms
  by (auto simp add: colliderect_def Ball_rect_def Paddle_rect_def Rect_right_def Rect_bottom_def)

text \<open>
  C5 as the claim states it fails in both directions. With the left paddle at its starting
  place (rectangle \<open>[28, 42] \<times> [215, 325]\<close>) and the ball moving left: at \<open>(50, 333)\<close> the
  paddle block bounces the ball although the circle is more than \<open>r\<close> away from the paddle's
  corner (\<open>8\<^sup>2 + 8\<^sup>2 > 10\<^sup>2\<close>); at \<open>(52, 270)\<close> the circle touches the paddle's face and the
  block leaves the ball alone.
\<close>

theorem contact_is_not_circle_test:
  "update_paddle_collision
      (kickoff\<lparr> ball := \<lparr> Ball.x = 50, Ball.y = 333, Ball.r = 10, Ball.vx = - 1,
                          Ball.vy = 0, Ball.speed = 360 \<rparr> \<rparr>)
    \<noteq> Inr (kickoff\<lparr> ball := \<lparr> Ball.x = 50, Ball.y = 333, Ball.r = 10, Ball.vx = - 1,
                          Ball.vy = 0, Ball.speed = 360 \<rparr> \<rparr>)
   \<and> \<not> circle_rect_collision 50 333 10 (Paddle_rect (left kickoff))
   \<and> update_paddle_collision
      (kickoff\<lparr> ball := \<lparr> Ball.x = 52, Ball.y = 270, Ball.r = 10, Ball.vx = - 1,
                          Ball.vy = 0, Ball.speed = 360 \<rparr> \<rparr>)
    = Inr (kickoff\<lparr> ball := \<lparr> Ball.x = 52, Ball.y = 270, Ball.r = 10, Ball.vx = - 1,
                          Ball.vy = 0, Ball.speed = 360 \<rparr> \<rparr>)
   \<and> circle_rect_collision 52 270 10 (Paddle_rect (left kickoff))"
proof -
  let ?a = "kickoff\<lparr> ball := \<lparr> Ball.x = 50, Ball.y = 333, Ball.r = 10, Ball.vx = - 1,
                          Ball.vy = 0, Ball.speed = 360 \<rparr> \<rparr>"
  let ?b = "kickoff\<lparr> ball := \<lparr> Ball.x = 52, Ball.y = 270, Ball.r = 10, Ball.vx = - 1,
                          Ball.vy = 0, Ball.speed = 360 \<rparr> \<rparr>"
  have wa: "wf_game ?a" and wb: "wf_game ?b" by (simp_all add: wf_game_def kickoff_def)
  have ha: "hits_left ?a"
    by (simp add: hits_left_def colliderect_def Ball_rect_def Paddle_rect_def Rect_right_def
          Rect_bottom_def py_int_def kickoff_def)
  have hb: "\<not> hits_left ?b" "\<not> hits_right ?b"
    by (simp_all add: hits_left_def hits_right_def colliderect_def Ball_rect_def Paddle_rect_def
          Rect_right_def Rect_bottom_def py_int_def kickoff_def)
  have a: "update_paddle_collision ?a \<noteq> Inr ?a"
    using update_paddle_collision_changes [OF wa] ha by auto
  have b: "update_paddle_collision ?b = Inr ?b"
    using wf_update_paddle_collision [OF wb] hb by auto
  have ca: "\<not> circle_rect_collision 50 333 10 (Paddle_rect (left kickoff))"
    by (simp add: circle_rect_collision_def Paddle_rect_def Rect_right_def Rect_bottom_def
          clamp_def py_int_def kickoff_def Let_def)
  have cb: "circle_rect_collision 52 270 10 (Paddle_rect (left kickoff))"
    by (simp add: circle_rect_collision_def Paddle_rect_def Rect_right_def Rect_bottom_def
          clamp_def py_int_def kickoff_def Let_def)
  show ?thesis using a b ca cb by blast
qed

text \<open>
  C5, amended. In every state the game can be in, the paddle block returns, and it changes
  the ball exactly when the rectangle \<open>Rect(int(ball.x - r), int(ball.y - r), 2r, 2r)\<close>
  overlaps a paddle's \<open>Rect(int(x), int(y), w, h)\<close> in pygame's sense (strictly, on integer
  coordinates) while ball.vx points toward that paddle. \<open>circle_rect_collision\<close> takes no part.
\<close>

theorem contact_is_box_overlap:
  assumes "wf_game g"
  shows "\<exists>g'. update_paddle_collision g = Inr g'
     \<and> (ball g' \<noteq> ball g \<longleftrightarrow>
          (py_int (Ball.x (ball g) - 10) < py_int (Paddle.x (left g)) + 14
           \<and> py_int (Paddle.x (left g)) < py_int (Ball.x (ball g) - 10) + 20
           \<and> py_int (Ball.y (ball g) - 10) < py_int (Paddle.y (left g)) + 110
           \<and> py_int (Paddle.y (left g)) < py_int (Ball.y (ball g) - 10) + 20
           \<and> Ball.vx (ball g) < 0)
        \<or> (py_int (Ball.x (ball g) - 10) < py_int (Paddle.x (right g)) + 14
           \<and> py_int (Paddle.x (right g)) < py_int (Ball.x (ball g) - 10) + 20
           \<and> py_int (Ball.y (ball g) - 10) < py_int (Paddle.y (right g)) + 110
           \<and> py_int (Paddle.y (right g)) < py_int (Ball.y (ball g) - 10) + 20
           \<and> Ball.vx (ball g) > 0))"
proof -
  note d = wf_gameD [OF assms]
  have l: "hits_left g \<longleftrightarrow>
           py_int (Ball.x (ball g) - 10) < py_int (Paddle.x (left g)) + 14
           \<and> py_int (Paddle.x (left g)) < py_int (Ball.x (ball g) - 10) + 20
           \<and> py_int (Ball.y (ball g) - 10) < py_int (Paddle.y (left g)) + 110
           \<and> py_int (Paddle.y (left g)) < py_int (Ball.y (ball g) - 10) + 20
           \<and> Ball.vx (ball g) < 0"
    unfolding hits_left_def colliderect_configured [OF d(3,4,8)] by blast
  have r: "hits_right g \<longleftrightarrow>
           py_int (Ball.x (ball g) - 10) < py_int (Paddle.x (right g)) + 14
           \<and> py_int (Paddle.x (right g)) < py_int (Ball.x (ball g) - 10) + 20
           \<and> py_int (Ball.y (ball g) - 10) < py_int (Paddle.y (right g)) + 110
           \<and> py_int (Paddle.y (right g)) < py_int (Ball.y (ball g) - 10) + 20
           \<and> Ball.vx (ball g) > 0"
    unfolding hits_right_def colliderect_configured [OF d(6,7,8)] by blast
  show ?thesis
    using update_paddle_collision_changes [OF assms] unfolding l r .
qed


theorem contact_is_box_overlap_witness:
  "wf_game (kickoff\<lparr> ball := \<lparr> Ball.x = 50, Ball.y = 333, Ball.r = 10, Ball.vx = - 1,
                                 Ball.vy = 0, Ball.speed = 360 \<rparr> \<rparr>)
   \<and> (\<exists>g'. update_paddle_collision
              (kickoff\<lparr> ball := \<lparr> Ball.x = 50, Ball.y = 333, Ball.r = 10, Ball.vx = - 1,
                                  Ball.vy = 0, Ball.speed = 360 \<rparr> \<rparr>) = Inr g'
          \<and> ball g' \<noteq> \<lparr> Ball.x = 50, Ball.y = 333, Ball.r = 10, Ball.vx = - 1,
                          Ball.vy = 0, Ball.speed = 360 \<rparr>)"
proof -
  let ?a = "kickoff\<lparr> ball := \<lparr> Ball.x = 50, Ball.y = 333, Ball.r = 10, Ball.vx = - 1,
                          Ball.vy = 0, Ball.speed = 360 \<rparr> \<rparr>"
  have wa: "wf_game ?a" by (simp add: wf_game_def kickoff_def)
  have i: "py_int 40 = 40" "py_int 28 = 28" "py_int 323 = 323" "py_int 215 = 215"
    by (simp_all add: py_int_def)
  show ?thesis
    using contact_is_box_overlap [OF wa] wa i by (simp add: kickoff_def)
qed

section \<open>The power-up timer\<close>

text \<open>A PLAYING frame sets the power-up timer to 0 if it spawns, and adds \<open>dt\<close> otherwise.\<close>

lemma play_frame_powerup_timer:
  assumes "wf_game g"
  shows "\<exists>g'. play_frame g f = Inr g' \<and> wf_game g'
           \<and> powerup_timer g' = (if spawns_in g f then 0 else powerup_timer g + frame_dt f)"
proof -
  let ?h = "handle_input g (frame_keys f) (frame_dt f)"
  let ?dt = "frame_dt f"
  let ?rnd = "frame_rnd f"
  have wh: "wf_game ?h" using assms by (rule wf_handle_input)
  have c: "cfg ?h = Config_defaults" "cfg g = Config_defaults"
    using wh assms by (simp_all add: wf_game_def)
  define g1 where "g1 =
     (if powerup ?h = None \<and> 7 \<le> powerup_timer ?h + ?dt
      then ?h\<lparr> powerup_timer := 0,
                powerup := Some \<lparr> PowerUp.x = real_of_int (120 + int (fst (spawn_choices ?rnd) mod 661)),
                                  PowerUp.y = real_of_int (80 + int (snd (spawn_choices ?rnd) mod 381)),
                                  PowerUp.r = 12, PowerUp.active = True \<rparr> \<rparr>
      else ?h\<lparr> powerup_timer := powerup_timer ?h + ?dt \<rparr>)"
  have t1: "update_powerup_timer ?h ?dt (spawn_choices ?rnd) = Inr g1"
    unfolding g1_def by (rule update_powerup_timer_defaults [OF c(1)])
  have pt1: "powerup_timer g1 = (if spawns_in g f then 0 else powerup_timer g + ?dt)"
    using c(2) by (simp add: g1_def spawns_in_def Config_defaults_def)
  let ?g4 = "update_wall_collision (update_ball_motion (update_boost_timer g1 ?dt) ?dt)"
  have s4: "step_to_walls ?h ?dt (spawn_choices ?rnd) = Inr ?g4"
    by (simp add: step_to_walls_def t1)
  have w4: "wf_game ?g4"
    using wf_step_to_walls [OF wh, of ?dt "spawn_choices ?rnd"] s4 by simp
  obtain g5 where g5: "update_paddle_collision ?g4 = Inr g5" "wf_game g5"
      "g5 = ?g4\<lparr> ball := ball g5 \<rparr>"
    using wf_update_paddle_collision [OF w4] by blast
  have pt5: "powerup_timer g5 = powerup_timer g1"
    by (subst g5(3)) simp
  let ?g6 = "update_powerup_contact g5"
  have w6: "wf_game ?g6" using g5(2) by (rule wf_update_powerup_contact)
  obtain g7 where g7: "update_goal ?g6 (serve_after_left_goal ?rnd) (serve_after_right_goal ?rnd)
                         = Inr g7" "powerup_timer g7 = powerup_timer ?g6"
    using update_goal_frame by blast
  have w7: "wf_game g7"
    using wf_update_goal [OF w6, of "serve_after_left_goal ?rnd" "serve_after_right_goal ?rnd"]
      g7(1) by simp
  have pf: "play_frame g f = Inr (update_win g7)"
    by (simp add: play_frame_def update_playing_alt step_to_paddles_def s4 g5(1) g7(1))
  show ?thesis
    using pf wf_update_win [OF w7] g7(2) pt5 pt1 by simp
qed

text \<open>
  C6 as the claim states it fails. A power-up has been on the field for 10 seconds (timer 10)
  when the ball takes it: after that step the power-up is gone, the boost timer is 1.2, and
  the power-up timer shows 10 + 1/60, not the time since the consumption. The very next
  step, 1/60 s after the consumption and not a spawn interval (7 s) after it, spawns a
  new power-up and sets the timer to 0.
\<close>

theorem powerup_timer_ignores_consumption:
  "update_playing
     (kickoff\<lparr> powerup := Some \<lparr> PowerUp.x = 450, PowerUp.y = 270, PowerUp.r = 12,
                                    PowerUp.active = True \<rparr>,
               powerup_timer := 10 \<rparr>)
     (1 / 60)
     \<lparr> spawn_choices = (0, 0), serve_after_left_goal = (0, 1),
       serve_after_right_goal = (0, - 1) \<rparr>
   = Inr (kickoff\<lparr> ball := \<lparr> Ball.x = 456, Ball.y = 270, Ball.r = 10, Ball.vx = 1,
                                Ball.vy = 0, Ball.speed = 360 \<rparr>,
                     powerup := None, powerup_timer := 601 / 60, boost_timer := 6 / 5 \<rparr>)
   \<and> update_playing
     (kickoff\<lparr> ball := \<lparr> Ball.x = 456, Ball.y = 270, Ball.r = 10, Ball.vx = 1,
                          Ball.vy = 0, Ball.speed = 360 \<rparr>,
               powerup := None, powerup_timer := 601 / 60, boost_timer := 6 / 5 \<rparr>)
     (1 / 60)
     \<lparr> spawn_choices = (0, 0), serve_after_left_goal = (0, 1),
       serve_after_right_goal = (0, - 1) \<rparr>
   = Inr (kickoff\<lparr> ball := \<lparr> Ball.x = 4641 / 10, Ball.y = 270, Ball.r = 10, Ball.vx = 1,
                                Ball.vy = 0, Ball.speed = 360 \<rparr>,
                     powerup := Some \<lparr> PowerUp.x = 120, PowerUp.y = 80, PowerUp.r = 12,
                                       PowerUp.active = True \<rparr>,
                     powerup_timer := 0, boost_timer := 71 / 60 \<rparr>)"
proof -
  have s0: "step_to_paddles (kickoff\<lparr> powerup := Some \<lparr> PowerUp.x = 450, PowerUp.y = 270, PowerUp.r = 12, PowerUp.active = True \<rparr>, powerup_timer := 10 \<rparr>) (1 / 60) (0, 0) = Inr (kickoff\<lparr> ball := \<lparr> Ball.x = 456, Ball.y = 270, Ball.r = 10, Ball.vx = 1,
                                 Ball.vy = 0, Ball.speed = 360 \<rparr>,
                      powerup := Some \<lparr> PowerUp.x = 450, PowerUp.y = 270, PowerUp.r = 12, PowerUp.active = True \<rparr>, powerup_timer := 601 / 60 \<rparr>)"
    by (simp add: step_to_paddles_def step_to_walls_def update_powerup_timer_def spawn_powerup_def
          randint_def update_boost_timer_def update_ball_motion_def update_wall_collision_def
          update_paddle_collision_def colliderect_def Ball_rect_def Paddle_rect_def
          Rect_right_def Rect_bottom_def py_int_def kickoff_def Config_defaults_def Let_def)
  have l: "Vector2_length (6, 0) = 6" by (simp add: Vector2_length_def)
  have c0: "update_powerup_contact (kickoff\<lparr> ball := \<lparr> Ball.x = 456, Ball.y = 270, Ball.r = 10, Ball.vx = 1,
                                 Ball.vy = 0, Ball.speed = 360 \<rparr>,
                      powerup := Some \<lparr> PowerUp.x = 450, PowerUp.y = 270, PowerUp.r = 12, PowerUp.active = True \<rparr>, powerup_timer := 601 / 60 \<rparr>) = (kickoff\<lparr> ball := \<lparr> Ball.x = 456, Ball.y = 270, Ball.r = 10, Ball.vx = 1,
                                 Ball.vy = 0, Ball.speed = 360 \<rparr>,
                      powerup := None, powerup_timer := 601 / 60, boost_timer := 6 / 5 \<rparr>)"
    using l by (simp add: update_powerup_contact_def Ball_pos_def kickoff_def Config_defaults_def)
  have e0: "update_playing (kickoff\<lparr> powerup := Some \<lparr> PowerUp.x = 450, PowerUp.y = 270, PowerUp.r = 12, PowerUp.active = True \<rparr>, powerup_timer := 10 \<rparr>) (1 / 60) \<lparr> spawn_choices = (0, 0), serve_after_left_goal = (0, 1),
                  serve_after_right_goal = (0, - 1) \<rparr> =
        bind_err (step_to_paddles (kickoff\<lparr> powerup := Some \<lparr> PowerUp.x = 450, PowerUp.y = 270, PowerUp.r = 12, PowerUp.active = True \<rparr>, powerup_timer := 10 \<rparr>) (1 / 60) (0, 0)) (\<lambda>g.
        bind_err (update_goal (update_powerup_contact g) (0, 1) (0, - 1)) (\<lambda>g.
        Inr (update_win g)))"
    by (simp add: update_playing_alt)
  have a: "update_playing (kickoff\<lparr> powerup := Some \<lparr> PowerUp.x = 450, PowerUp.y = 270, PowerUp.r = 12, PowerUp.active = True \<rparr>, powerup_timer := 10 \<rparr>) (1 / 60) \<lparr> spawn_choices = (0, 0), serve_after_left_goal = (0, 1),
                  serve_after_right_goal = (0, - 1) \<rparr> = Inr (kickoff\<lparr> ball := \<lparr> Ball.x = 456, Ball.y = 270, Ball.r = 10, Ball.vx = 1,
                                 Ball.vy = 0, Ball.speed = 360 \<rparr>,
                      powerup := None, powerup_timer := 601 / 60, boost_timer := 6 / 5 \<rparr>)"
    unfolding e0 s0 bind_err_Inr c0
    by (simp add: update_goal_Inr update_win_def Let_def kickoff_def Config_defaults_def)
  have s1: "step_to_paddles (kickoff\<lparr> ball := \<lparr> Ball.x = 456, Ball.y = 270, Ball.r = 10, Ball.vx = 1,
                                 Ball.vy = 0, Ball.speed = 360 \<rparr>,
                      powerup := None, powerup_timer := 601 / 60, boost_timer := 6 / 5 \<rparr>) (1 / 60) (0, 0) = Inr (kickoff\<lparr> ball := \<lparr> Ball.x = 4641 / 10, Ball.y = 270, Ball.r = 10, Ball.vx = 1,
                                 Ball.vy = 0, Ball.speed = 360 \<rparr>,
                      powerup := Some \<lparr> PowerUp.x = 120, PowerUp.y = 80, PowerUp.r = 12, PowerUp.active = True \<rparr>, powerup_timer := 0, boost_timer := 71 / 60 \<rparr>)"
    by (simp add: step_to_paddles_def step_to_walls_def update_powerup_timer_def spawn_powerup_def
          randint_def update_boost_timer_def update_ball_motion_def update_wall_collision_def
          update_paddle_collision_def colliderect_def Ball_rect_def Paddle_rect_def
          Rect_right_def Rect_bottom_def py_int_def kickoff_def Config_defaults_def Let_def)
  have far: "\<not> Vector2_length (3441 / 10, 190) \<le> 22"
    using Vector2_length_ge_fst [of "3441 / 10" 190] by simp
  have c1: "update_powerup_contact (kickoff\<lparr> ball := \<lparr> Ball.x = 4641 / 10, Ball.y = 270, Ball.r = 10, Ball.vx = 1,
                                 Ball.vy = 0, Ball.speed = 360 \<rparr>,
                      powerup := Some \<lparr> PowerUp.x = 120, PowerUp.y = 80, PowerUp.r = 12, PowerUp.active = True \<rparr>, powerup_timer := 0, boost_timer := 71 / 60 \<rparr>) = (kickoff\<lparr> ball := \<lparr> Ball.x = 4641 / 10, Ball.y = 270, Ball.r = 10, Ball.vx = 1,
                                 Ball.vy = 0, Ball.speed = 360 \<rparr>,
                      powerup := Some \<lparr> PowerUp.x = 120, PowerUp.y = 80, PowerUp.r = 12, PowerUp.active = True \<rparr>, powerup_timer := 0, boost_timer := 71 / 60 \<rparr>)"
    using far by (simp add: update_powerup_contact_def Ball_pos_def kickoff_def)
  have e1: "update_playing (kickoff\<lparr> ball := \<lparr> Ball.x = 456, Ball.y = 270, Ball.r = 10, Ball.vx = 1,
                                 Ball.vy = 0, Ball.speed = 360 \<rparr>,
                      powerup := None, powerup_timer := 601 / 60, boost_timer := 6 / 5 \<rparr>) (1 / 60) \<lparr> spawn_choices = (0, 0), serve_after_left_goal = (0, 1),
                  serve_after_right_goal = (0, - 1) \<rparr> =
        bind_err (step_to_paddles (kickoff\<lparr> ball := \<lparr> Ball.x = 456, Ball.y = 270, Ball.r = 10, Ball.vx = 1,
                                 Ball.vy = 0, Ball.speed = 360 \<rparr>,
                      powerup := None, powerup_timer := 601 / 60, boost_timer := 6 / 5 \<rparr>) (1 / 60) (0, 0)) (\<lambda>g.
        bind_err (update_goal (update_powerup_contact g) (0, 1) (0, - 1)) (\<lambda>g.
        Inr (update_win g)))"
    by (simp add: update_playing_alt)
  have b: "update_playing (kickoff\<lparr> ball := \<lparr> Ball.x = 456, Ball.y = 270, Ball.r = 10, Ball.vx = 1,
                                 Ball.vy = 0, Ball.speed = 360 \<rparr>,
                      powerup := None, powerup_timer := 601 / 60, boost_timer := 6 / 5 \<rparr>) (1 / 60) \<lparr> spawn_choices = (0, 0), serve_after_left_goal = (0, 1),
                  serve_after_right_goal = (0, - 1) \<rparr> = Inr (kickoff\<lparr> ball := \<lparr> Ball.x = 4641 / 10, Ball.y = 270, Ball.r = 10, Ball.vx = 1,
                                 Ball.vy = 0, Ball.speed = 360 \<rparr>,
                      powerup := Some \<lparr> PowerUp.x = 120, PowerUp.y = 80, PowerUp.r = 12, PowerUp.active = True \<rparr>, powerup_timer := 0, boost_timer := 71 / 60 \<rparr>)"
    unfolding e1 s1 bind_err_Inr c1
    by (simp add: update_goal_Inr update_win_def Let_def kickoff_def Config_defaults_def)
  show ?thesis using a b by blast
qed

text \<open>
  C6, amended. From any state the game can be in, PLAYING frames return, and the power-up
  timer after them is the time since the last spawn: what a clock shows that advances by
  each frame's \<open>dt\<close> and is set to 0 only by a frame that spawns a power-up (no power-up on
  the field and timer plus \<open>dt\<close> at least the interval). Taking a power-up does not touch
  it: a frame that starts with a power-up on the field adds \<open>dt\<close>, whether or not the ball
  takes the power-up in it.
\<close>

theorem powerup_timer_since_spawn:
  assumes "wf_game g"
  shows "(\<exists>g'. rally g fs = Inr g'
            \<and> powerup_timer g' = seconds_since_spawn (powerup_timer g) g fs)
       \<and> (\<exists>g1. play_frame g f = Inr g1
            \<and> (powerup g \<noteq> None \<longrightarrow> powerup_timer g1 = powerup_timer g + frame_dt f))"
proof -
  have "\<exists>g'. rally g fs = Inr g' \<and> powerup_timer g' = seconds_since_spawn (powerup_timer g) g fs"
    using assms
  proof (induction fs arbitrary: g)
    case Nil
    then show ?case by simp
  next
    case (Cons f fs)
    obtain g1 where g1: "play_frame g f = Inr g1" "wf_game g1"
        "powerup_timer g1 = (if spawns_in g f then 0 else powerup_timer g + frame_dt f)"
      using play_frame_powerup_timer [OF Cons.prems] by blast
    obtain g' where g': "rally g1 fs = Inr g'"
        "powerup_timer g' = seconds_since_spawn (powerup_timer g1) g1 fs"
      using Cons.IH [OF g1(2)] by blast
    show ?case using g1 g' by simp
  qed
  moreover have "\<exists>g1. play_frame g f = Inr g1
            \<and> (powerup g \<noteq> None \<longrightarrow> powerup_timer g1 = powerup_timer g + frame_dt f)"
    using play_frame_powerup_timer [OF assms, of f] by (auto simp add: spawns_in_def)
  ultimately show ?thesis by blast
qed

theorem powerup_timer_since_spawn_witness:
  "wf_game (kickoff\<lparr> powerup := Some \<lparr> PowerUp.x = 450, PowerUp.y = 270, PowerUp.r = 12, PowerUp.active = True \<rparr>, powerup_timer := 10 \<rparr>)
   \<and> (\<exists>g'. rally (kickoff\<lparr> powerup := Some \<lparr> PowerUp.x = 450, PowerUp.y = 270, PowerUp.r = 12, PowerUp.active = True \<rparr>, powerup_timer := 10 \<rparr>) [\<lparr> frame_dt = 1 / 60, frame_events = [], frame_keys = \<lparr> K_w = False, K_s = False, K_RSHIFT = False, K_LSHIFT = False,
                      K_UP = False, K_DOWN = False \<rparr>,
        frame_restart_draw = (0, 1), frame_rnd = \<lparr> spawn_choices = (0, 0), serve_after_left_goal = (0, 1),
                  serve_after_right_goal = (0, - 1) \<rparr> \<rparr>] = Inr g' \<and> powerup_timer g' = 10 + 1 / 60)
   \<and> powerup (kickoff\<lparr> powerup := Some \<lparr> PowerUp.x = 450, PowerUp.y = 270, PowerUp.r = 12, PowerUp.active = True \<rparr>, powerup_timer := 10 \<rparr>) \<noteq> None"
proof -
  have w: "wf_game (kickoff\<lparr> powerup := Some \<lparr> PowerUp.x = 450, PowerUp.y = 270, PowerUp.r = 12, PowerUp.active = True \<rparr>, powerup_timer := 10 \<rparr>)" by (simp add: wf_game_def kickoff_def)
  have n: "powerup (kickoff\<lparr> powerup := Some \<lparr> PowerUp.x = 450, PowerUp.y = 270, PowerUp.r = 12, PowerUp.active = True \<rparr>, powerup_timer := 10 \<rparr>) \<noteq> None" by simp
  have ns: "\<not> spawns_in (kickoff\<lparr> powerup := Some \<lparr> PowerUp.x = 450, PowerUp.y = 270, PowerUp.r = 12, PowerUp.active = True \<rparr>, powerup_timer := 10 \<rparr>) \<lparr> frame_dt = 1 / 60, frame_events = [], frame_keys = \<lparr> K_w = False, K_s = False, K_RSHIFT = False, K_LSHIFT = False,
                      K_UP = False, K_DOWN = False \<rparr>,
        frame_restart_draw = (0, 1), frame_rnd = \<lparr> spawn_choices = (0, 0), serve_after_left_goal = (0, 1),
                  serve_after_right_goal = (0, - 1) \<rparr> \<rparr>" by (simp add: spawns_in_def)
  obtain g1 where g1: "play_frame (kickoff\<lparr> powerup := Some \<lparr> PowerUp.x = 450, PowerUp.y = 270, PowerUp.r = 12, PowerUp.active = True \<rparr>, powerup_timer := 10 \<rparr>) \<lparr> frame_dt = 1 / 60, frame_events = [], frame_keys = \<lparr> K_w = False, K_s = False, K_RSHIFT = False, K_LSHIFT = False,
                      K_UP = False, K_DOWN = False \<rparr>,
        frame_restart_draw = (0, 1), frame_rnd = \<lparr> spawn_choices = (0, 0), serve_after_left_goal = (0, 1),
                  serve_after_right_goal = (0, - 1) \<rparr> \<rparr> = Inr g1"
    using wf_play_frame [OF w] by blast
  have q: "seconds_since_spawn 10 (kickoff\<lparr> powerup := Some \<lparr> PowerUp.x = 450, PowerUp.y = 270, PowerUp.r = 12, PowerUp.active = True \<rparr>, powerup_timer := 10 \<rparr>) [\<lparr> frame_dt = 1 / 60, frame_events = [], frame_keys = \<lparr> K_w = False, K_s = False, K_RSHIFT = False, K_LSHIFT = False,
                      K_UP = False, K_DOWN = False \<rparr>,
        frame_restart_draw = (0, 1), frame_rnd = \<lparr> spawn_choices = (0, 0), serve_after_left_goal = (0, 1),
                  serve_after_right_goal = (0, - 1) \<rparr> \<rparr>] = 10 + 1 / 60"
    unfolding seconds_since_spawn.simps g1 using ns by simp
  have p: "powerup_timer (kickoff\<lparr> powerup := Some \<lparr> PowerUp.x = 450, PowerUp.y = 270, PowerUp.r = 12, PowerUp.active = True \<rparr>, powerup_timer := 10 \<rparr>) = 10" by simp
  show ?thesis
    using powerup_timer_since_spawn [OF w, of "[\<lparr> frame_dt = 1 / 60, frame_events = [], frame_keys = \<lparr> K_w = False, K_s = False, K_RSHIFT = False, K_LSHIFT = False,
                      K_UP = False, K_DOWN = False \<rparr>,
        frame_restart_draw = (0, 1), frame_rnd = \<lparr> spawn_choices = (0, 0), serve_after_left_goal = (0, 1),
                  serve_after_right_goal = (0, - 1) \<rparr> \<rparr>]" "\<lparr> frame_dt = 1 / 60, frame_events = [], frame_keys = \<lparr> K_w = False, K_s = False, K_RSHIFT = False, K_LSHIFT = False,
                      K_UP = False, K_DOWN = False \<rparr>,
        frame_restart_draw = (0, 1), frame_rnd = \<lparr> spawn_choices = (0, 0), serve_after_left_goal = (0, 1),
                  serve_after_right_goal = (0, - 1) \<rparr> \<rparr>"] w n q
    unfolding p by auto
qed

end
